theory Spec2Isabelle
  imports Main "HOL-Library.Word"
begin

section \<open>Endpoint descriptors (core/microservice.go)\<close>

text \<open>
  The file under verification dispatches the mail server's hooks to remote services.
  Go strings and byte slices are \<open>string\<close> (lists of bytes), an \<open>error\<close> value is the
  text its \<open>Error()\<close> method gives, and a Go result pair \<open>(value, err)\<close> is a sum with
  \<open>Inl\<close> for the error.
\<close>

type_synonym bytes = string
type_synonym error = string

datatype onfailure = CONTINUE | TEMPFAIL | PERMFAIL

record microservice =
  url :: string
  skipAuthentifiedUser :: bool
  fireAndForget :: bool
  timeout :: "64 word"
  onFailure :: onfailure

subsection \<open>Library functions used by the parser\<close>

text \<open>\<open>strings.Split(s, sep)\<close> for a one-byte separator: never the empty list.\<close>

fun Split :: "string \<Rightarrow> char \<Rightarrow> string list" where
  "Split [] sep = [[]]"
| "Split (c # cs) sep =
     (if c = sep then [] # Split cs sep
      else case Split cs sep of
             x # xs \<Rightarrow> (c # x) # xs
           | [] \<Rightarrow> [[c]])"

text \<open>
  \<open>strconv.ParseUint(s, 10, 64)\<close>: a non-empty string of decimal digits whose value
  fits 64 bits; anything else is a \<open>*NumError\<close> (syntax or range). The error text
  quotes the input; \<open>Quote\<close> writes the escapes of the double quote and the backslash.
\<close>

definition digit_val :: "char \<Rightarrow> nat option" where
  "digit_val c = map_of
     [(CHR ''0'', 0), (CHR ''1'', 1), (CHR ''2'', 2), (CHR ''3'', 3), (CHR ''4'', 4),
      (CHR ''5'', 5), (CHR ''6'', 6), (CHR ''7'', 7), (CHR ''8'', 8), (CHR ''9'', 9)] c"

fun Quote_body :: "string \<Rightarrow> string" where
  "Quote_body [] = []"
| "Quote_body (c # cs) =
     (if c = CHR 0x22 \<or> c = CHR 0x5C then CHR 0x5C # c # Quote_body cs
      else c # Quote_body cs)"

definition Quote :: "string \<Rightarrow> string" where
  "Quote s = CHR 0x22 # Quote_body s @ [CHR 0x22]"

definition NumError :: "string \<Rightarrow> string \<Rightarrow> string \<Rightarrow> error" where
  "NumError fn num why = ''strconv.'' @ fn @ '': parsing '' @ Quote num @ '': '' @ why"

fun decimal_value :: "nat \<Rightarrow> string \<Rightarrow> nat option" where
  "decimal_value acc [] = Some acc"
| "decimal_value acc (c # cs) =
     (case digit_val c of
        None \<Rightarrow> None
      | Some d \<Rightarrow> decimal_value (acc * 10 + d) cs)"

definition ParseUint :: "string \<Rightarrow> error + 64 word" where
  "ParseUint s =
     (if s = [] then Inl (NumError ''ParseUint'' s ''invalid syntax'')
      else case decimal_value 0 s of
        None \<Rightarrow> Inl (NumError ''ParseUint'' s ''invalid syntax'')
      | Some n \<Rightarrow>
          if n < 2 ^ 64 then Inr (word_of_nat n)
          else Inl (NumError ''ParseUint'' s ''value out of range''))"

text \<open>
  \<open>url.Values\<close> is a map from a key to the list of its values, and \<open>Values.Get\<close> gives
  the first value of a key, or the empty string when the key has none.
\<close>

type_synonym Values = "string \<Rightarrow> string list"

definition Get :: "Values \<Rightarrow> string \<Rightarrow> string" where
  "Get v key = (case v key of [] \<Rightarrow> [] | x # _ \<Rightarrow> x)"

text \<open>
  \<open>url.Parse(uri)\<close> followed by \<open>Query()\<close> belongs to the Go library, whose reasons to
  reject a locator differ between releases; the parser below takes it as a parameter
  \<open>parse\<close>, giving the library's error or the query values of the locator.
\<close>

type_synonym url_Parse = "string \<Rightarrow> error + Values"

subsection \<open>newMicroservice\<close>

definition newMicroservice :: "url_Parse \<Rightarrow> string \<Rightarrow> error + microservice" where
  "newMicroservice parse uri =
     (let ms = \<lparr>url = hd (Split uri (CHR ''?'')), skipAuthentifiedUser = False,
                 fireAndForget = False, timeout = 30, onFailure = CONTINUE\<rparr>
      in case parse uri of
        Inl err \<Rightarrow> Inl err
      | Inr query \<Rightarrow>
          (let ms = (if Get query ''skipauthentifieduser'' = ''true''
                     then ms\<lparr>skipAuthentifiedUser := True\<rparr> else ms);
               ms = (if Get query ''fireandforget'' = ''true''
                     then ms\<lparr>fireAndForget := True\<rparr> else ms)
           in case (if Get query ''timeout'' \<noteq> []
                    then ParseUint (Get query ''timeout'') else Inr (timeout ms)) of
                Inl err \<Rightarrow> Inl err
              | Inr t \<Rightarrow>
                  (let ms = ms\<lparr>timeout := t\<rparr>
                   in Inr (if Get query ''onfailure'' \<noteq> [] then
                             (if Get query ''onfailure'' = ''tempfail''
                                then ms\<lparr>onFailure := TEMPFAIL\<rparr>
                              else if Get query ''onfailure'' = ''permfail''
                                then ms\<lparr>onFailure := PERMFAIL\<rparr>
                              else ms)
                           else ms))))"

subsection \<open>A reference parser for the examples\<close>

text \<open>
  How net/url finds the query of a locator: the fragment is cut off at the first \<open>#\<close>,
  the raw query is what follows the first \<open>?\<close>, it is split at \<open>&\<close>, each piece is cut
  at its first \<open>=\<close>, both halves are unescaped (\<open>+\<close> is a space, \<open>%XX\<close> a byte), and a
  piece that is empty, holds a semicolon or does not unescape is left out. Of the
  library's reasons to reject a locator, \<open>go_url_Parse\<close> has the control-byte check.
\<close>

definition Cut :: "string \<Rightarrow> char \<Rightarrow> string \<times> string" where
  "Cut s sep = (takeWhile (\<lambda>c. c \<noteq> sep) s, drop 1 (dropWhile (\<lambda>c. c \<noteq> sep) s))"

definition hex_val :: "char \<Rightarrow> nat option" where
  "hex_val c = (case digit_val c of
       Some d \<Rightarrow> Some d
     | None \<Rightarrow> map_of
         [(CHR ''a'', 10), (CHR ''b'', 11), (CHR ''c'', 12), (CHR ''d'', 13), (CHR ''e'', 14),
          (CHR ''f'', 15), (CHR ''A'', 10), (CHR ''B'', 11), (CHR ''C'', 12), (CHR ''D'', 13),
          (CHR ''E'', 14), (CHR ''F'', 15)] c)"

fun QueryUnescape :: "string \<Rightarrow> string option" where
  "QueryUnescape [] = Some []"
| "QueryUnescape (c # cs) =
     (if c = CHR ''%'' then
        (case cs of
           a # b # rest \<Rightarrow>
             (case (hex_val a, hex_val b, QueryUnescape rest) of
                (Some h, Some l, Some r) \<Rightarrow> Some (char_of (16 * h + l) # r)
              | _ \<Rightarrow> None)
         | _ \<Rightarrow> None)
      else map_option ((#) (if c = CHR ''+'' then CHR '' '' else c)) (QueryUnescape cs))"

definition query_pair :: "string \<Rightarrow> (string \<times> string) option" where
  "query_pair piece =
     (if piece = [] \<or> CHR '';'' \<in> set piece then None
      else case (QueryUnescape (fst (Cut piece (CHR ''=''))),
                 QueryUnescape (snd (Cut piece (CHR ''='')))) of
        (Some k, Some v) \<Rightarrow> Some (k, v)
      | _ \<Rightarrow> None)"

definition ParseQuery :: "string \<Rightarrow> Values" where
  "ParseQuery raw key =
     map snd (filter (\<lambda>kv. fst kv = key) (List.map_filter query_pair (Split raw (CHR ''&''))))"

definition CTLByte :: "char \<Rightarrow> bool" where
  "CTLByte c = ((of_char c :: nat) < 32 \<or> (of_char c :: nat) = 127)"

definition go_url_Parse :: url_Parse where
  "go_url_Parse rawURL =
     (let u = fst (Cut rawURL (CHR ''#''))
      in if list_ex CTLByte u then Inl ''net/url: invalid control character in URL''
         else Inr (ParseQuery (snd (Cut u (CHR ''?'')))))"


section \<open>The session, the messages and the outside world\<close>

subsection \<open>The SMTP session\<close>

text \<open>
  The fields of \<open>SMTPServerSession\<close> the hooks read and write: \<open>remoteAddr\<close> is
  \<open>s.conn.RemoteAddr().String()\<close>, \<open>user\<close> is \<open>None\<close> for the nil pointer of a
  session that has not authenticated. \<open>sent\<close> holds the lines written to the client,
  \<open>logged\<close> the session's log, \<open>exiting\<close> whether termination was requested.
\<close>

datatype log_line = LogInfo string | LogError string

record SMTPServerSession =
  uuid :: string
  remoteAddr :: string
  user :: "string option"
  relayGranted :: bool
  sent :: "string list"
  logged :: "log_line list"
  exiting :: bool

text \<open>
  The session's methods \<open>out\<close>, \<open>log\<close>, \<open>logError\<close> and \<open>exitAsap\<close> are declared
  in another file of the package; the hooks only call them.
\<close>

text \<open>
  Modelled from the spec: \<open>s.out\<close> is declared outside this file; it is the session's
  \<open>writeReply\<close>, which writes the reply to the session's outbound channel.
\<close>

definition out :: "SMTPServerSession \<Rightarrow> string \<Rightarrow> SMTPServerSession" where
  "out s msg = s\<lparr>sent := sent s @ [msg]\<rparr>"

text \<open>
  Modelled from the spec: \<open>s.log\<close> is declared outside this file; it is the session's
  \<open>logInfo\<close>, which records a line in the session's log.
\<close>

definition log :: "SMTPServerSession \<Rightarrow> string \<Rightarrow> SMTPServerSession" where
  "log s msg = s\<lparr>logged := logged s @ [LogInfo msg]\<rparr>"

text \<open>
  Modelled from the spec: \<open>s.logError\<close> is declared outside this file; it is the
  session's \<open>logError\<close>, which records an error line in the session's log.
\<close>

definition logError :: "SMTPServerSession \<Rightarrow> string \<Rightarrow> SMTPServerSession" where
  "logError s msg = s\<lparr>logged := logged s @ [LogError msg]\<rparr>"

text \<open>
  Modelled from the spec: \<open>s.exitAsap\<close> is declared outside this file; it is the
  session's \<open>requestTermination\<close>, which asks for the session to end and is idempotent.
\<close>

definition exitAsap :: "SMTPServerSession \<Rightarrow> SMTPServerSession" where
  "exitAsap s = s\<lparr>exiting := True\<rparr>"

subsection \<open>Messages of package msproto\<close>

text \<open>
  The generated message types are read through their getters only, which give the
  zero value for a field the sender left out; a record holds what the getters return.
  \<open>GetSmtpResponse\<close> is \<open>None\<close> for the nil pointer. The three session hooks' responses
  share the reply and the drop flag; RcptTo adds the relay flag, Data the headers.
\<close>

record SmtpResponse =
  GetCode :: int
  GetMsg :: string

record SmtpdNewClientResponse =
  GetSmtpResponse :: "SmtpResponse option"
  GetDropConnection :: bool

record SmtpdRcptToResponse = SmtpdNewClientResponse +
  GetRelayGranted :: bool

record SmtpdDataResponse = SmtpdNewClientResponse +
  GetExtraHeaders :: "string list"

record RouteMsg =
  GetRemoteHost :: string
  GetLocalIp :: string
  GetRemotePort :: int
  GetPriority :: int

record DeliverdGetRoutesResponse =
  GetRoutes :: "RouteMsg list"

datatype query =
    SmtpdNewClientQuery string string
  | SmtpdRcptToQuery string string
  | SmtpdDataQuery string string
  | DeliverdGetRoutesQuery string string string string

subsection \<open>HTTP responses, the world, the environment\<close>

text \<open>
  \<open>Body\<close> is what \<open>ioutil.ReadAll(r.Body)\<close> gives: the bytes or a read error.
  \<open>Status\<close> is the status line's text, such as \<open>404 Not Found\<close>.
\<close>

record Response =
  StatusCode :: int
  Status :: string
  Body :: "error + bytes"

text \<open>
  What a run leaves outside the session: the requests posted synchronously (endpoint
  address and body, in order), the calls handed to a goroutine by \<open>go ms.call\<close>, the
  temporary files that exist, and the lines of the process-wide logger \<open>Log\<close>.
\<close>

record world =
  requests :: "(string \<times> bytes) list"
  detached :: "(string \<times> bytes) list"
  tempfiles :: "string list"
  Log :: "log_line list"

text \<open>
  What a run is given: the configuration \<open>Cfg\<close>, and the behaviour of the libraries
  and of the network. \<open>Do n ms body\<close> is the outcome of the HTTP client for the request
  posted after \<open>n\<close> earlier ones: a client error (network failure, timeout) or a
  response. \<open>TempFile dir\<close> is the name of the file created, \<open>Write\<close> the error of
  writing to it, if any.
\<close>

record env =
  Parse :: url_Parse
  GetMicroservicesUri :: "string \<Rightarrow> string list"
  GetTempDir :: string
  GetRestServerIp :: string
  GetRestServerPort :: int
  GetRestServerIsTls :: bool
  Marshal :: "query \<Rightarrow> error + bytes"
  UnmarshalNewClient :: "bytes \<Rightarrow> error + SmtpdNewClientResponse"
  UnmarshalRcptTo :: "bytes \<Rightarrow> error + SmtpdRcptToResponse"
  UnmarshalData :: "bytes \<Rightarrow> error + SmtpdDataResponse"
  UnmarshalGetRoutes :: "bytes \<Rightarrow> error + DeliverdGetRoutesResponse"
  Do :: "nat \<Rightarrow> microservice \<Rightarrow> bytes \<Rightarrow> error + Response"
  TempFile :: "string \<Rightarrow> error + string"
  Write :: "string \<Rightarrow> bytes \<Rightarrow> error option"

section \<open>Calls and the handling of their outcomes\<close>

text \<open>\<open>doRequest\<close> posts the body to \<open>ms.url\<close> with the client's timeout set from \<open>ms.timeout\<close>.\<close>

definition doRequest ::
  "env \<Rightarrow> microservice \<Rightarrow> bytes \<Rightarrow> world \<Rightarrow> (error + Response) \<times> world" where
  "doRequest env ms data w =
     (Do env (length (requests w)) ms data, w\<lparr>requests := requests w @ [(url ms, data)]\<rparr>)"

definition call :: "env \<Rightarrow> microservice \<Rightarrow> bytes \<Rightarrow> world \<Rightarrow> (error + bytes) \<times> world" where
  "call env ms data w =
     (case doRequest env ms data w of
        (Inl err, w) \<Rightarrow> (Inl err, w)
      | (Inr r, w) \<Rightarrow>
          (case Body r of
             Inl err \<Rightarrow> (Inl err, w)
           | Inr rawBody \<Rightarrow>
               if StatusCode r > 399 then (Inl (Status r @ '' - '' @ rawBody), w)
               else (Inr rawBody, w)))"

text \<open>\<open>go ms.call(&msg)\<close>: the call is handed to a goroutine and its result is dropped.\<close>

definition go_call :: "microservice \<Rightarrow> bytes \<Rightarrow> world \<Rightarrow> world" where
  "go_call ms data w = w\<lparr>detached := detached w @ [(url ms, data)]\<rparr>"

definition stopOnError :: "microservice \<Rightarrow> bool" where
  "stopOnError ms = (case onFailure ms of PERMFAIL \<Rightarrow> True | TEMPFAIL \<Rightarrow> True | CONTINUE \<Rightarrow> False)"

definition handleSMTPError ::
  "microservice \<Rightarrow> error option \<Rightarrow> SMTPServerSession \<Rightarrow> bool \<times> SMTPServerSession" where
  "handleSMTPError ms err s =
     (case err of
        None \<Rightarrow> (False, s)
      | Some e \<Rightarrow>
          (let s = logError s (''microservice '' @ url ms @ '' failed. '' @ e)
           in case onFailure ms of
                PERMFAIL \<Rightarrow> (True, out s ''550 sorry something wrong happened'')
              | TEMPFAIL \<Rightarrow> (True, out s ''450 sorry something wrong happened'')
              | CONTINUE \<Rightarrow> (False, s)))"

text \<open>\<open>fmt.Sprintf("%d", n)\<close>: the decimal digits, with a minus sign below zero.\<close>

fun decimal :: "nat \<Rightarrow> string" where
  "decimal n =
     (if n < 10 then [''0123456789'' ! n]
      else decimal (n div 10) @ [''0123456789'' ! (n mod 10)])"

declare decimal.simps [simp del]

definition Sprintf_d :: "int \<Rightarrow> string" where
  "Sprintf_d i = (if i < 0 then CHR ''-'' # decimal (nat (- i)) else decimal (nat i))"

definition handleSMTPResponse ::
  "SmtpResponse option \<Rightarrow> SMTPServerSession \<Rightarrow> bool \<times> SMTPServerSession" where
  "handleSMTPResponse smtpResponse s =
     (case smtpResponse of
        None \<Rightarrow> (False, s)
      | Some r \<Rightarrow>
          if GetCode r \<noteq> 0 \<and> GetMsg r \<noteq> [] then
            (let reply = Sprintf_d (GetCode r) @ '' '' @ GetMsg r;
                 s = out s reply;
                 s = log s (''smtp response from microservice sent to client: '' @ reply)
             in (True, s))
          else (False, s))"

section \<open>The hooks\<close>

text \<open>
  \<open>for _, uri := range uris { ... }\<close> with \<open>return\<close> and \<open>continue\<close> in its body: the
  body gives \<open>Inl r\<close> when it returns \<open>r\<close> from the function and \<open>Inr st\<close> when it goes on
  to the next endpoint with the state \<open>st\<close>; the loop gives \<open>Inr st\<close> when it runs out.
\<close>

fun for_range :: "('a \<Rightarrow> 'st \<Rightarrow> 'r + 'st) \<Rightarrow> 'a list \<Rightarrow> 'st \<Rightarrow> 'r + 'st" where
  "for_range body [] st = Inr st"
| "for_range body (x # xs) st =
     (case body x st of
        Inl r \<Rightarrow> Inl r
      | Inr st' \<Rightarrow> for_range body xs st')"

subsection \<open>msSmtpdNewClient\<close>

text \<open>
  The named result \<open>stop\<close> is set to false at the top of every iteration, so the bare
  \<open>return\<close> after a failed call returns false.
\<close>

definition msSmtpdNewClient_body ::
  "env \<Rightarrow> bytes \<Rightarrow> string \<Rightarrow> SMTPServerSession \<times> world
     \<Rightarrow> (bool \<times> SMTPServerSession \<times> world) + (SMTPServerSession \<times> world)" where
  "msSmtpdNewClient_body env msg uri = (\<lambda>(s, w).
     case newMicroservice (Parse env) uri of
       Inl err \<Rightarrow> Inr (logError s (''unable to parse microservice url '' @ uri @ ''. '' @ err), w)
     | Inr ms \<Rightarrow>
         if user s \<noteq> None \<and> skipAuthentifiedUser ms then Inr (s, w)
         else
           (let s = log s (''calling '' @ url ms)
            in if fireAndForget ms then Inr (s, go_call ms msg w)
               else
                 (case call env ms msg w of
                    (Inl err, w) \<Rightarrow>
                      (let s = logError s (''microservice '' @ url ms @ '' failed. '' @ err)
                       in if stopOnError ms then Inl (False, s, w) else Inr (s, w))
                  | (Inr response, w) \<Rightarrow>
                      (case UnmarshalNewClient env response of
                         Inl err \<Rightarrow>
                           (let s = logError s (''microservice '' @ url ms @ '' failed. '' @ err)
                            in if stopOnError ms then Inl (False, s, w) else Inr (s, w))
                       | Inr msResponse \<Rightarrow>
                           (case handleSMTPResponse (GetSmtpResponse msResponse) s of
                              (stop, s) \<Rightarrow>
                                (case (if GetDropConnection msResponse
                                       then (True, exitAsap s) else (stop, s)) of
                                   (stop, s) \<Rightarrow>
                                     if stop then Inl (True, s, w) else Inr (s, w)))))))"

definition msSmtpdNewClient_loop ::
  "env \<Rightarrow> bytes \<Rightarrow> string list \<Rightarrow> SMTPServerSession \<times> world
     \<Rightarrow> bool \<times> SMTPServerSession \<times> world" where
  "msSmtpdNewClient_loop env msg uris st =
     (case for_range (msSmtpdNewClient_body env msg) uris st of
        Inl r \<Rightarrow> r
      | Inr (s, w) \<Rightarrow> (False, s, w))"

definition msSmtpdNewClient ::
  "env \<Rightarrow> SMTPServerSession \<Rightarrow> world \<Rightarrow> bool \<times> SMTPServerSession \<times> world" where
  "msSmtpdNewClient env s w =
     (if length (GetMicroservicesUri env ''smtpdnewclient'') = 0 then (False, s, w)
      else case Marshal env (SmtpdNewClientQuery (uuid s) (remoteAddr s)) of
        Inl err \<Rightarrow>
          (False, logError s (''unable to serialize data as SmtpdNewClientMsg. '' @ err), w)
      | Inr msg \<Rightarrow>
          msSmtpdNewClient_loop env msg (GetMicroservicesUri env ''smtpdnewclient'') (s, w))"

subsection \<open>msSmtpdRcptTo\<close>

definition msSmtpdRcptTo_body ::
  "env \<Rightarrow> bytes \<Rightarrow> string \<Rightarrow> SMTPServerSession \<times> world
     \<Rightarrow> (bool \<times> SMTPServerSession \<times> world) + (SMTPServerSession \<times> world)" where
  "msSmtpdRcptTo_body env msg uri = (\<lambda>(s, w).
     case newMicroservice (Parse env) uri of
       Inl err \<Rightarrow> Inr (logError s (''unable to parse microservice url '' @ uri @ ''. '' @ err), w)
     | Inr ms \<Rightarrow>
         if user s \<noteq> None \<and> skipAuthentifiedUser ms then Inr (s, w)
         else
           (let s = log s (''calling '' @ url ms)
            in if fireAndForget ms then Inr (s, go_call ms msg w)
               else
                 (case call env ms msg w of
                    (Inl err, w) \<Rightarrow>
                      (case handleSMTPError ms (Some err) s of
                         (stop, s) \<Rightarrow> if stop then Inl (True, s, w) else Inr (s, w))
                  | (Inr response, w) \<Rightarrow>
                      (case UnmarshalRcptTo env response of
                         Inl err \<Rightarrow>
                           (case handleSMTPError ms (Some err) s of
                              (stop, s) \<Rightarrow> if stop then Inl (True, s, w) else Inr (s, w))
                       | Inr msResponse \<Rightarrow>
                           (let s = s\<lparr>relayGranted := GetRelayGranted msResponse\<rparr>
                            in case handleSMTPResponse (GetSmtpResponse msResponse) s of
                              (stop, s) \<Rightarrow>
                                (case (if GetDropConnection msResponse
                                       then (True, exitAsap s) else (stop, s)) of
                                   (stop, s) \<Rightarrow>
                                     if stop then Inl (True, s, w) else Inr (s, w)))))))"

text \<open>
  The loop runs on a list that is not empty and every iteration that does not return
  leaves \<open>stop\<close> false, so the final \<open>return stop\<close> returns false.
\<close>

definition msSmtpdRcptTo_loop ::
  "env \<Rightarrow> bytes \<Rightarrow> string list \<Rightarrow> SMTPServerSession \<times> world
     \<Rightarrow> bool \<times> SMTPServerSession \<times> world" where
  "msSmtpdRcptTo_loop env msg uris st =
     (case for_range (msSmtpdRcptTo_body env msg) uris st of
        Inl r \<Rightarrow> r
      | Inr (s, w) \<Rightarrow> (False, s, w))"

definition msSmtpdRcptTo ::
  "env \<Rightarrow> SMTPServerSession \<Rightarrow> string \<Rightarrow> world \<Rightarrow> bool \<times> SMTPServerSession \<times> world" where
  "msSmtpdRcptTo env s rcptTo w =
     (if length (GetMicroservicesUri env ''smtpdrcptto'') = 0 then (False, s, w)
      else case Marshal env (SmtpdRcptToQuery (uuid s) rcptTo) of
        Inl err \<Rightarrow>
          (False, logError s (''unable to serialize data as SmtpdRcptToQuery. '' @ err), w)
      | Inr msg \<Rightarrow>
          msSmtpdRcptTo_loop env msg (GetMicroservicesUri env ''smtpdrcptto'') (s, w))"

subsection \<open>smtpdData\<close>

text \<open>
  The state of the loop carries the headers collected so far. \<open>fireAndForget\<close> is not
  read in this hook.
\<close>

definition smtpdData_body ::
  "env \<Rightarrow> bytes \<Rightarrow> string \<Rightarrow> string list \<times> SMTPServerSession \<times> world
     \<Rightarrow> (bool \<times> string list \<times> SMTPServerSession \<times> world)
       + (string list \<times> SMTPServerSession \<times> world)" where
  "smtpdData_body env msg uri = (\<lambda>(extraHeaders, s, w).
     case newMicroservice (Parse env) uri of
       Inl err \<Rightarrow>
         Inr (extraHeaders,
              logError s (''unable to parse microservice url '' @ uri @ ''. '' @ err), w)
     | Inr ms \<Rightarrow>
         if user s \<noteq> None \<and> skipAuthentifiedUser ms then Inr (extraHeaders, s, w)
         else
           (let s = log s (''calling '' @ url ms)
            in case call env ms msg w of
                 (Inl err, w) \<Rightarrow>
                   (case handleSMTPError ms (Some err) s of
                      (stop, s) \<Rightarrow>
                        if stop then Inl (True, extraHeaders, s, w) else Inr (extraHeaders, s, w))
               | (Inr response, w) \<Rightarrow>
                   (case UnmarshalData env response of
                      Inl err \<Rightarrow>
                        (case handleSMTPError ms (Some err) s of
                           (stop, s) \<Rightarrow>
                             if stop then Inl (True, extraHeaders, s, w)
                             else Inr (extraHeaders, s, w))
                    | Inr msResponse \<Rightarrow>
                        (let extraHeaders = extraHeaders @ GetExtraHeaders msResponse
                         in case handleSMTPResponse (GetSmtpResponse msResponse) s of
                           (stop, s) \<Rightarrow>
                             (case (if GetDropConnection msResponse
                                    then (True, exitAsap s) else (stop, s)) of
                                (stop, s) \<Rightarrow>
                                  if stop then Inl (True, extraHeaders, s, w)
                                  else Inr (extraHeaders, s, w))))))"

definition smtpdData_loop ::
  "env \<Rightarrow> bytes \<Rightarrow> string list \<Rightarrow> string list \<times> SMTPServerSession \<times> world
     \<Rightarrow> bool \<times> string list \<times> SMTPServerSession \<times> world" where
  "smtpdData_loop env msg uris st =
     (case for_range (smtpdData_body env msg) uris st of
        Inl r \<Rightarrow> r
      | Inr (extraHeaders, s, w) \<Rightarrow> (False, extraHeaders, s, w))"

text \<open>
  The part of \<open>smtpdData\<close> after \<open>defer os.Remove(f.Name())\<close>: the link to the saved
  body, the query, the loop. \<open>name\<close> is \<open>f.Name()\<close>. The deferred removal runs when
  this part returns, whichever way.
\<close>

definition smtpdData_link :: "env \<Rightarrow> string \<Rightarrow> string" where
  "smtpdData_link env name =
     (let t = Split name (CHR ''/'');
          link = GetRestServerIp env @ '':'' @ Sprintf_d (GetRestServerPort env)
                   @ ''/msdata/'' @ last t
      in if GetRestServerIsTls env then ''https://'' @ link else ''http://'' @ link)"

definition smtpdData_deferred ::
  "env \<Rightarrow> SMTPServerSession \<Rightarrow> string \<Rightarrow> world
     \<Rightarrow> bool \<times> string list \<times> SMTPServerSession \<times> world" where
  "smtpdData_deferred env s name w =
     (case Marshal env (SmtpdDataQuery (uuid s) (smtpdData_link env name)) of
        Inl err \<Rightarrow>
          (False, [], logError s (''unable to serialize data as SmtpdDataQuery. '' @ err), w)
      | Inr msg \<Rightarrow>
          smtpdData_loop env msg (GetMicroservicesUri env ''smtpddata'') ([], s, w))"

text \<open>\<open>os.Remove(name)\<close>; its error is not looked at.\<close>

definition Remove :: "string \<Rightarrow> world \<Rightarrow> world" where
  "Remove name w = w\<lparr>tempfiles := removeAll name (tempfiles w)\<rparr>"

definition deferred_Remove ::
  "string \<Rightarrow> bool \<times> string list \<times> SMTPServerSession \<times> world
     \<Rightarrow> bool \<times> string list \<times> SMTPServerSession \<times> world" where
  "deferred_Remove name r =
     (case r of (stop, extraHeaders, s, w) \<Rightarrow> (stop, extraHeaders, s, Remove name w))"

definition smtpdData ::
  "env \<Rightarrow> SMTPServerSession \<Rightarrow> bytes \<Rightarrow> world
     \<Rightarrow> bool \<times> string list \<times> SMTPServerSession \<times> world" where
  "smtpdData env s rawMail w =
     (if length (GetMicroservicesUri env ''smtpddata'') = 0 then (False, [], s, w)
      else case TempFile env (GetTempDir env) of
        Inl err \<Rightarrow>
          (False, [], logError s (''ms - unable to save rawmail in tempfile. '' @ err), w)
      | Inr name \<Rightarrow>
          (let w = w\<lparr>tempfiles := tempfiles w @ [name]\<rparr>
           in case Write env name rawMail of
                Some err \<Rightarrow>
                  (False, [],
                   logError s (''ms - unable to save rawmail in tempfile. '' @ err), w)
              | None \<Rightarrow> deferred_Remove name (smtpdData_deferred env s name w)))"

subsection \<open>msGetRoutes\<close>

text \<open>
  A delivery, with the fields of \<open>d.qMsg\<close> the hook reads, and a route as the hook fills
  it: \<open>sql.NullString\<close> and \<open>sql.NullInt64\<close> are options (\<open>None\<close> when not valid).
\<close>

record delivery =
  deliverd_id :: string
  MailFrom :: string
  RcptTo :: string
  AuthUser :: string

record Route =
  RemoteHost :: string
  LocalIp :: "string option"
  RemotePort :: "int option"
  Priority :: "int option"

datatype panic = NilPointerDereference

text \<open>
  \<open>ms.stopOnError()\<close> through the pointer \<open>ms\<close>: reading \<open>ms.onFailure\<close> of the nil
  pointer is a run-time panic.
\<close>

definition stopOnError_ptr :: "microservice option \<Rightarrow> panic + bool" where
  "stopOnError_ptr ms =
     (case ms of
        None \<Rightarrow> Inl NilPointerDereference
      | Some m \<Rightarrow> Inr (stopOnError m))"

definition route_of :: "RouteMsg \<Rightarrow> Route" where
  "route_of route =
     \<lparr>RemoteHost = GetRemoteHost route,
      LocalIp = (if GetLocalIp route \<noteq> [] then Some (GetLocalIp route) else None),
      RemotePort = (if GetRemotePort route \<noteq> 0 then Some (GetRemotePort route) else None),
      Priority = (if GetPriority route \<noteq> 0 then Some (GetPriority route) else None)\<rparr>"

text \<open>
  The routes are a pointer to a slice: \<open>None\<close> is the nil pointer. The error of
  \<open>proto.Marshal\<close> is overwritten before it is read, and a failed marshal leaves the
  empty message. Where \<open>newMicroservice\<close> fails, \<open>ms\<close> is the nil pointer it returned.
\<close>

definition msGetRoutes ::
  "env \<Rightarrow> delivery \<Rightarrow> world \<Rightarrow> (panic + (Route list option \<times> bool)) \<times> world" where
  "msGetRoutes env d w =
     (let msURI = GetMicroservicesUri env ''deliverdgetroutes''
      in if length msURI = 0 then (Inr (Some [], False), w)
         else
           (let msg = (case Marshal env (DeliverdGetRoutesQuery (deliverd_id d) (MailFrom d)
                                           (RcptTo d) (AuthUser d)) of
                         Inl err \<Rightarrow> []
                       | Inr b \<Rightarrow> b)
            in case newMicroservice (Parse env) (hd msURI) of
                 Inl err \<Rightarrow>
                   (let ms = None;
                        w = w\<lparr>Log := Log w @ [LogError (''deliverd-remote '' @ deliverd_id d
                                @ '' - msGetRoutes - unable to init new ms: '' @ err)]\<rparr>
                    in (map_sum id (\<lambda>stop. (None, stop)) (stopOnError_ptr ms), w))
               | Inr ms \<Rightarrow>
                   (let w = w\<lparr>Log := Log w @ [LogInfo (''deliverd-remote '' @ deliverd_id d
                                @ '' - msGetRoutes - call ms: '' @ url ms)]\<rparr>
                    in case call env ms msg w of
                         (Inl err, w) \<Rightarrow>
                           (let w = w\<lparr>Log := Log w @ [LogError (''deliverd-remote ''
                                  @ deliverd_id d @ '' - msGetRoutes - unable to call ms: ''
                                  @ err)]\<rparr>
                            in (map_sum id (\<lambda>stop. (None, stop)) (stopOnError_ptr (Some ms)), w))
                       | (Inr response, w) \<Rightarrow>
                           (case UnmarshalGetRoutes env response of
                              Inl err \<Rightarrow>
                                (let w = w\<lparr>Log := Log w @ [LogError (''deliverd-remote ''
                                       @ deliverd_id d
                                       @ '' - msGetRoutes - unable to unmarshall response: ''
                                       @ err)]\<rparr>
                                 in (map_sum id (\<lambda>stop. (Some [], stop))
                                       (stopOnError_ptr (Some ms)), w))
                            | Inr msResponse \<Rightarrow>
                                if length (GetRoutes msResponse) = 0 then (Inr (None, False), w)
                                else (Inr (Some (map route_of (GetRoutes msResponse)), False),
                                      w)))))"

section \<open>Vocabulary of the statements\<close>

text \<open>
  What a synchronous call to an endpoint comes to, for the hook whose decoder is
  \<open>decode\<close>: the error of the transport or of the decoding, or the decoded response.
\<close>

definition sync_outcome ::
  "env \<Rightarrow> (bytes \<Rightarrow> error + 'r) \<Rightarrow> microservice \<Rightarrow> bytes \<Rightarrow> world \<Rightarrow> error + 'r" where
  "sync_outcome env decode ms msg w =
     (case fst (call env ms msg w) of
        Inl err \<Rightarrow> Inl err
      | Inr response \<Rightarrow> decode response)"

text \<open>A reply that is absent, or has code zero, or has an empty message.\<close>

definition no_reply_text :: "SmtpResponse option \<Rightarrow> bool" where
  "no_reply_text r = (case r of None \<Rightarrow> True | Some p \<Rightarrow> GetCode p = 0 \<or> GetMsg p = [])"

text \<open>A halting outcome writes a reply or asks to drop the connection.\<close>

definition halting :: "'a SmtpdNewClientResponse_scheme \<Rightarrow> bool" where
  "halting r = (\<not> no_reply_text (GetSmtpResponse r) \<or> GetDropConnection r)"

text \<open>The reply of the failure policy.\<close>

definition policy_reply :: "microservice \<Rightarrow> string" where
  "policy_reply ms =
     (if onFailure ms = PERMFAIL then ''550 sorry something wrong happened''
      else ''450 sorry something wrong happened'')"

section \<open>Example runs\<close>

text \<open>
  A small environment for concrete runs: every hook has the same endpoints, the network
  answers by endpoint address (a refused connection for an address it does not know),
  and the response bodies are words of a toy wire format.
\<close>

definition example_reply :: "bytes \<Rightarrow> (SmtpResponse option \<times> bool) option" where
  "example_reply body = map_of
     [(''ok'', (None, False)),
      (''drop'', (None, True)),
      (''blank'', (Some \<lparr>GetCode = 0, GetMsg = []\<rparr>, False)),
      (''reject'', (Some \<lparr>GetCode = 550, GetMsg = ''no''\<rparr>, False))] body"

definition example_net ::
  "(string \<times> (error + Response)) list \<Rightarrow> nat \<Rightarrow> microservice \<Rightarrow> bytes \<Rightarrow> error + Response" where
  "example_net table n ms data =
     (case map_of table (url ms) of
        None \<Rightarrow> Inl ''connection refused''
      | Some r \<Rightarrow> r)"

definition answer :: "int \<Rightarrow> string \<Rightarrow> bytes \<Rightarrow> error + Response" where
  "answer code status body = Inr \<lparr>StatusCode = code, Status = status, Body = Inr body\<rparr>"

definition example_env :: "string list \<Rightarrow> (string \<times> (error + Response)) list \<Rightarrow> env" where
  "example_env uris table =
     \<lparr>Parse = go_url_Parse,
      GetMicroservicesUri = (\<lambda>hook. uris),
      GetTempDir = ''/tmp'',
      GetRestServerIp = ''127.0.0.1'',
      GetRestServerPort = 8080,
      GetRestServerIsTls = False,
      Marshal = (\<lambda>q. Inr ''q''),
      UnmarshalNewClient = (\<lambda>body. case example_reply body of
          None \<Rightarrow> Inl ''proto: bad wire format''
        | Some (r, d) \<Rightarrow> Inr \<lparr>GetSmtpResponse = r, GetDropConnection = d\<rparr>),
      UnmarshalRcptTo = (\<lambda>body. case example_reply body of
          None \<Rightarrow> Inl ''proto: bad wire format''
        | Some (r, d) \<Rightarrow>
            Inr \<lparr>GetSmtpResponse = r, GetDropConnection = d, GetRelayGranted = True\<rparr>),
      UnmarshalData = (\<lambda>body. case example_reply body of
          None \<Rightarrow> Inl ''proto: bad wire format''
        | Some (r, d) \<Rightarrow>
            Inr \<lparr>GetSmtpResponse = r, GetDropConnection = d,
                 GetExtraHeaders = [''X-Checked: yes'']\<rparr>),
      UnmarshalGetRoutes = (\<lambda>body. Inl ''proto: bad wire format''),
      Do = example_net table,
      TempFile = (\<lambda>dir. Inr (dir @ ''/421337'')),
      Write = (\<lambda>name data. None)\<rparr>"

definition session0 :: SMTPServerSession where
  "session0 = \<lparr>uuid = ''u1'', remoteAddr = ''192.0.2.1:40000'', user = None, relayGranted = False,
         sent = [], logged = [], exiting = False\<rparr>"

definition world0 :: world where
  "world0 = \<lparr>requests = [], detached = [], tempfiles = [], Log = []\<rparr>"

text \<open>An authenticated session meets an endpoint it must skip, then one that answers.\<close>

definition skip_env :: env where
  "skip_env = example_env [''a://b?skipauthentifieduser=true&onfailure=permfail'', ''a://c'']
                [(''a://c'', answer 200 ''200 OK'' ''ok'')]"

text \<open>A failing endpoint with a halting policy, followed by one that answers.\<close>

definition halt_env :: env where
  "halt_env = example_env [''a://b?onfailure=tempfail'', ''a://c'']
                [(''a://c'', answer 200 ''200 OK'' ''ok'')]"

text \<open>A failing endpoint with the policy PERMFAIL.\<close>

definition permfail_env :: env where
  "permfail_env = example_env [''a://b?onfailure=permfail''] []"

text \<open>An endpoint that asks to drop the connection and sends no reply.\<close>

definition drop_env :: env where
  "drop_env = example_env [''a://b'', ''a://c'']
                [(''a://b'', answer 200 ''200 OK'' ''drop''), (''a://c'', answer 200 ''200 OK'' ''ok'')]"

text \<open>An endpoint whose reply has code zero and no text, then one that drops.\<close>

definition blank_env :: env where
  "blank_env = example_env [''a://b'', ''a://c'']
                [(''a://b'', answer 200 ''200 OK'' ''blank''), (''a://c'', answer 200 ''200 OK'' ''drop'')]"

text \<open>An endpoint that rejects with a reply.\<close>

definition reject_env :: env where
  "reject_env = example_env [''a://b'', ''a://c'']
                [(''a://b'', answer 200 ''200 OK'' ''reject''), (''a://c'', answer 200 ''200 OK'' ''ok'')]"

text \<open>
  A descriptor and an endpoint answering with a given status; a GetRoutes endpoint whose
  timeout does not parse; a fire-and-forget endpoint that fails; a disk that is full.
\<close>

definition ms0 :: microservice where
  "ms0 = \<lparr>url = ''a://b'', skipAuthentifiedUser = False, fireAndForget = False,
          timeout = 30, onFailure = CONTINUE\<rparr>"

definition status_env :: "int \<Rightarrow> string \<Rightarrow> bytes \<Rightarrow> env" where
  "status_env code status body = example_env [''a://b''] [(''a://b'', answer code status body)]"

definition badconfig_env :: env where
  "badconfig_env = example_env [''a://b?timeout=1x''] []"

definition delivery0 :: delivery where
  "delivery0 = \<lparr>deliverd_id = ''d1'', MailFrom = ''a@b'', RcptTo = ''x@y'', AuthUser = []\<rparr>"

definition forget_env :: env where
  "forget_env = example_env [''a://b?fireandforget=true&onfailure=permfail'', ''a://c'']
                  [(''a://c'', answer 200 ''200 OK'' ''ok'')]"

definition diskfull_env :: env where
  "diskfull_env = (example_env [''a://b''] [(''a://b'', answer 200 ''200 OK'' ''ok'')])
                    \<lparr>Write := (\<lambda>name data. Some ''no space left on device'')\<rparr>"

section \<open>The endpoint parser\<close>

lemmas parser_eval =
  go_url_Parse_def Cut_def ParseQuery_def query_pair_def CTLByte_def Get_def
  List.map_filter_def ParseUint_def digit_val_def

lemma newMicroservice_timeout_error:
  assumes "parse uri = Inr query" and "Get query ''timeout'' \<noteq> []"
    and "ParseUint (Get query ''timeout'') = Inl e"
  shows "newMicroservice parse uri = Inl e"
  using assms by (simp add: newMicroservice_def Let_def)

lemma newMicroservice_descriptor:
  assumes "parse uri = Inr query"
    and "if Get query ''timeout'' = [] then t = 30 else ParseUint (Get query ''timeout'') = Inr t"
  shows "newMicroservice parse uri =
     Inr \<lparr>url = hd (Split uri (CHR ''?'')),
          skipAuthentifiedUser = (Get query ''skipauthentifieduser'' = ''true''),
          fireAndForget = (Get query ''fireandforget'' = ''true''),
          timeout = t,
          onFailure = (if Get query ''onfailure'' = ''tempfail'' then TEMPFAIL
                       else if Get query ''onfailure'' = ''permfail'' then PERMFAIL
                       else CONTINUE)\<rparr>"
  using assms by (auto simp: newMicroservice_def Let_def split: if_splits)

lemma newMicroservice_example:
  "newMicroservice go_url_Parse ''http://h/x?timeout=5&onfailure=permfail'' =
     Inr \<lparr>url = ''http://h/x'', skipAuthentifiedUser = False, fireAndForget = False,
          timeout = 5, onFailure = PERMFAIL\<rparr>"
  by (simp add: newMicroservice_def parser_eval)

text \<open>
  C6. Parsing \<open>http://h/x?timeout=5&onfailure=permfail\<close> gives timeout 5, PERMFAIL and
  both flags false. In general, for a locator the library accepts with the query values
  \<open>query\<close>: a timeout value that is there and does not parse as an unsigned 64-bit
  decimal makes the parse fail with that error; otherwise the descriptor has the address
  before the first \<open>?\<close>, each flag set exactly when its parameter is \<open>true\<close>, the parsed
  timeout or 30 when there is none, and the policy TEMPFAIL for \<open>tempfail\<close>, PERMFAIL for
  \<open>permfail\<close> and CONTINUE for every other value or none.
\<close>

theorem newMicroservice_parses:
  "newMicroservice go_url_Parse ''http://h/x?timeout=5&onfailure=permfail'' =
     Inr \<lparr>url = ''http://h/x'', skipAuthentifiedUser = False, fireAndForget = False,
          timeout = 5, onFailure = PERMFAIL\<rparr>
   \<and> (\<forall>parse uri query. parse uri = Inr query \<longrightarrow>
        (\<forall>e. Get query ''timeout'' \<noteq> [] \<and> ParseUint (Get query ''timeout'') = Inl e
             \<longrightarrow> newMicroservice parse uri = Inl e)
      \<and> (\<forall>t. (if Get query ''timeout'' = [] then t = 30
               else ParseUint (Get query ''timeout'') = Inr t)
             \<longrightarrow> newMicroservice parse uri =
                   Inr \<lparr>url = hd (Split uri (CHR ''?'')),
                        skipAuthentifiedUser = (Get query ''skipauthentifieduser'' = ''true''),
                        fireAndForget = (Get query ''fireandforget'' = ''true''),
                        timeout = t,
                        onFailure =
                          (if Get query ''onfailure'' = ''tempfail'' then TEMPFAIL
                           else if Get query ''onfailure'' = ''permfail'' then PERMFAIL
                           else CONTINUE)\<rparr>))"
  using newMicroservice_example newMicroservice_timeout_error newMicroservice_descriptor
  by blast

theorem newMicroservice_parses_witness:
  "newMicroservice go_url_Parse
      ''a://b?skipauthentifieduser=true&fireandforget=true&timeout=12&onfailure=tempfail'' =
     Inr \<lparr>url = ''a://b'', skipAuthentifiedUser = True, fireAndForget = True,
          timeout = 12, onFailure = TEMPFAIL\<rparr>
   \<and> newMicroservice go_url_Parse ''a://b?onfailure=other'' =
     Inr \<lparr>url = ''a://b'', skipAuthentifiedUser = False, fireAndForget = False,
          timeout = 30, onFailure = CONTINUE\<rparr>
   \<and> newMicroservice go_url_Parse ''a://b?timeout=1x'' =
     Inl (NumError ''ParseUint'' ''1x'' ''invalid syntax'')"
proof -
  let ?u1 = "''a://b?skipauthentifieduser=true&fireandforget=true&timeout=12&onfailure=tempfail''"
  let ?q1 = "ParseQuery ''skipauthentifieduser=true&fireandforget=true&timeout=12&onfailure=tempfail''"
  note gen = newMicroservice_parses [THEN conjunct2, THEN spec, THEN spec, THEN spec, THEN mp]
  have p1: "go_url_Parse ?u1 = Inr ?q1"
    by (simp add: go_url_Parse_def Cut_def CTLByte_def)
  have g1: "Get ?q1 ''skipauthentifieduser'' = ''true''" "Get ?q1 ''fireandforget'' = ''true''"
    "Get ?q1 ''timeout'' = ''12''" "Get ?q1 ''onfailure'' = ''tempfail''"
    by (simp_all add: parser_eval)
  have t1: "ParseUint ''12'' = Inr 12"
    by (simp add: ParseUint_def digit_val_def)
  have r1: "newMicroservice go_url_Parse ?u1 =
     Inr \<lparr>url = ''a://b'', skipAuthentifiedUser = True, fireAndForget = True,
          timeout = 12, onFailure = TEMPFAIL\<rparr>"
    using gen [of go_url_Parse ?u1 ?q1, OF p1, THEN conjunct2, rule_format, of 12]
    by (simp add: g1 t1)
  have p2: "go_url_Parse ''a://b?onfailure=other'' = Inr (ParseQuery ''onfailure=other'')"
    by (simp add: go_url_Parse_def Cut_def CTLByte_def)
  have g2: "Get (ParseQuery ''onfailure=other'') ''skipauthentifieduser'' = []"
    "Get (ParseQuery ''onfailure=other'') ''fireandforget'' = []"
    "Get (ParseQuery ''onfailure=other'') ''timeout'' = []"
    "Get (ParseQuery ''onfailure=other'') ''onfailure'' = ''other''"
    by (simp_all add: parser_eval)
  have r2: "newMicroservice go_url_Parse ''a://b?onfailure=other'' =
     Inr \<lparr>url = ''a://b'', skipAuthentifiedUser = False, fireAndForget = False,
          timeout = 30, onFailure = CONTINUE\<rparr>"
    using gen [of go_url_Parse "''a://b?onfailure=other''" "ParseQuery ''onfailure=other''",
        OF p2, THEN conjunct2, rule_format, of 30]
    by (simp add: g2)
  have p3: "go_url_Parse ''a://b?timeout=1x'' = Inr (ParseQuery ''timeout=1x'')"
    by (simp add: go_url_Parse_def Cut_def CTLByte_def)
  have g3: "Get (ParseQuery ''timeout=1x'') ''timeout'' = ''1x''"
    by (simp add: parser_eval)
  have t3: "ParseUint ''1x'' = Inl (NumError ''ParseUint'' ''1x'' ''invalid syntax'')"
    by (simp add: ParseUint_def digit_val_def)
  have r3: "newMicroservice go_url_Parse ''a://b?timeout=1x'' =
     Inl (NumError ''ParseUint'' ''1x'' ''invalid syntax'')"
    using gen [of go_url_Parse "''a://b?timeout=1x''" "ParseQuery ''timeout=1x''",
        OF p3, THEN conjunct1, rule_format,
        of "NumError ''ParseUint'' ''1x'' ''invalid syntax''"]
    by (simp add: g3 t3)
  from r1 r2 r3 show ?thesis by simp
qed

section \<open>Calls, loop bodies and runs\<close>

lemma call_world: "snd (call env ms data w) = w\<lparr>requests := requests w @ [(url ms, data)]\<rparr>"
  by (simp add: call_def doRequest_def split: sum.split)

lemma for_range_append:
  "for_range body (xs @ ys) st =
     (case for_range body xs st of Inl r \<Rightarrow> Inl r | Inr st' \<Rightarrow> for_range body ys st')"
  by (induction xs arbitrary: st) (auto split: sum.split)

lemma msSmtpdNewClient_run:
  assumes "GetMicroservicesUri env ''smtpdnewclient'' = pre @ uri # rest"
    and "Marshal env (SmtpdNewClientQuery (uuid s_in) (remoteAddr s_in)) = Inr msg"
    and "for_range (msSmtpdNewClient_body env msg) pre (s_in, w_in) = Inr st"
  shows "msSmtpdNewClient env s_in w_in =
     (case msSmtpdNewClient_body env msg uri st of
        Inl r \<Rightarrow> r
      | Inr st' \<Rightarrow> msSmtpdNewClient_loop env msg rest st')"
  using assms
  by (simp add: msSmtpdNewClient_def msSmtpdNewClient_loop_def for_range_append split: sum.split)

lemma msSmtpdRcptTo_run:
  assumes "GetMicroservicesUri env ''smtpdrcptto'' = pre @ uri # rest"
    and "Marshal env (SmtpdRcptToQuery (uuid s_in) rcptTo) = Inr msg"
    and "for_range (msSmtpdRcptTo_body env msg) pre (s_in, w_in) = Inr st"
  shows "msSmtpdRcptTo env s_in rcptTo w_in =
     (case msSmtpdRcptTo_body env msg uri st of
        Inl r \<Rightarrow> r
      | Inr st' \<Rightarrow> msSmtpdRcptTo_loop env msg rest st')"
  using assms
  by (simp add: msSmtpdRcptTo_def msSmtpdRcptTo_loop_def for_range_append split: sum.split)

lemma smtpdData_run:
  assumes "GetMicroservicesUri env ''smtpddata'' = pre @ uri # rest"
    and "TempFile env (GetTempDir env) = Inr name"
    and "Write env name rawMail = None"
    and "Marshal env (SmtpdDataQuery (uuid s_in) (smtpdData_link env name)) = Inr msg"
    and "for_range (smtpdData_body env msg) pre
           ([], s_in, w_in\<lparr>tempfiles := tempfiles w_in @ [name]\<rparr>) = Inr st"
  shows "smtpdData env s_in rawMail w_in =
     deferred_Remove name
       (case smtpdData_body env msg uri st of
          Inl r \<Rightarrow> r
        | Inr st' \<Rightarrow> smtpdData_loop env msg rest st')"
  using assms
  by (simp add: smtpdData_def smtpdData_deferred_def smtpdData_loop_def for_range_append
      split: sum.split)

lemma msSmtpdNewClient_body_called:
  assumes "newMicroservice (Parse env) uri = Inr ms"
    and "\<not> (user s \<noteq> None \<and> skipAuthentifiedUser ms)" and "\<not> fireAndForget ms"
  shows "msSmtpdNewClient_body env msg uri (s, w) =
     (case sync_outcome env (UnmarshalNewClient env) ms msg w of
        Inl err \<Rightarrow>
          (if stopOnError ms
           then Inl (False, logError (log s (''calling '' @ url ms))
                         (''microservice '' @ url ms @ '' failed. '' @ err), snd (call env ms msg w))
           else Inr (logError (log s (''calling '' @ url ms))
                         (''microservice '' @ url ms @ '' failed. '' @ err), snd (call env ms msg w)))
      | Inr r \<Rightarrow>
          (case handleSMTPResponse (GetSmtpResponse r) (log s (''calling '' @ url ms)) of
             (stop, s') \<Rightarrow>
               if GetDropConnection r then Inl (True, exitAsap s', snd (call env ms msg w))
               else if stop then Inl (True, s', snd (call env ms msg w))
               else Inr (s', snd (call env ms msg w))))"
  using assms
  by (cases "call env ms msg w")
     (auto simp: msSmtpdNewClient_body_def sync_outcome_def Let_def split: sum.split prod.split)

lemma msSmtpdRcptTo_body_called:
  assumes "newMicroservice (Parse env) uri = Inr ms"
    and "\<not> (user s \<noteq> None \<and> skipAuthentifiedUser ms)" and "\<not> fireAndForget ms"
  shows "msSmtpdRcptTo_body env msg uri (s, w) =
     (case sync_outcome env (UnmarshalRcptTo env) ms msg w of
        Inl err \<Rightarrow>
          (case handleSMTPError ms (Some err) (log s (''calling '' @ url ms)) of
             (stop, s') \<Rightarrow>
               if stop then Inl (True, s', snd (call env ms msg w))
               else Inr (s', snd (call env ms msg w)))
      | Inr r \<Rightarrow>
          (case handleSMTPResponse (GetSmtpResponse r)
                  ((log s (''calling '' @ url ms))\<lparr>relayGranted := GetRelayGranted r\<rparr>) of
             (stop, s') \<Rightarrow>
               if GetDropConnection r then Inl (True, exitAsap s', snd (call env ms msg w))
               else if stop then Inl (True, s', snd (call env ms msg w))
               else Inr (s', snd (call env ms msg w))))"
  using assms
  by (cases "call env ms msg w")
     (auto simp: msSmtpdRcptTo_body_def sync_outcome_def Let_def split: sum.split prod.split)

lemma smtpdData_body_called:
  assumes "newMicroservice (Parse env) uri = Inr ms"
    and "\<not> (user s \<noteq> None \<and> skipAuthentifiedUser ms)"
  shows "smtpdData_body env msg uri (hdrs, s, w) =
     (case sync_outcome env (UnmarshalData env) ms msg w of
        Inl err \<Rightarrow>
          (case handleSMTPError ms (Some err) (log s (''calling '' @ url ms)) of
             (stop, s') \<Rightarrow>
               if stop then Inl (True, hdrs, s', snd (call env ms msg w))
               else Inr (hdrs, s', snd (call env ms msg w)))
      | Inr r \<Rightarrow>
          (case handleSMTPResponse (GetSmtpResponse r) (log s (''calling '' @ url ms)) of
             (stop, s') \<Rightarrow>
               if GetDropConnection r
               then Inl (True, hdrs @ GetExtraHeaders r, exitAsap s', snd (call env ms msg w))
               else if stop then Inl (True, hdrs @ GetExtraHeaders r, s', snd (call env ms msg w))
               else Inr (hdrs @ GetExtraHeaders r, s', snd (call env ms msg w))))"
  using assms
  by (cases "call env ms msg w")
     (auto simp: smtpdData_body_def sync_outcome_def Let_def split: sum.split prod.split)



lemma handleSMTPResponse_user:
  "handleSMTPResponse r s = (stop, s') \<Longrightarrow> user s' = user s"
  by (auto simp: handleSMTPResponse_def out_def log_def Let_def split: option.splits if_splits)

lemma handleSMTPError_user:
  "handleSMTPError ms e s = (stop, s') \<Longrightarrow> user s' = user s"
  by (auto simp: handleSMTPError_def out_def logError_def Let_def
      split: option.splits onfailure.splits)

lemma session_user [simp]:
  "user (log s m) = user s" "user (logError s m) = user s" "user (exitAsap s) = user s"
  "user (out s m) = user s"
  by (simp_all add: log_def logError_def exitAsap_def out_def)

lemma msSmtpdNewClient_body_config_error:
  "newMicroservice (Parse env) uri = Inl err \<Longrightarrow>
   msSmtpdNewClient_body env msg uri (s, w) =
     Inr (logError s (''unable to parse microservice url '' @ uri @ ''. '' @ err), w)"
  by (simp add: msSmtpdNewClient_body_def)

lemma msSmtpdRcptTo_body_config_error:
  "newMicroservice (Parse env) uri = Inl err \<Longrightarrow>
   msSmtpdRcptTo_body env msg uri (s, w) =
     Inr (logError s (''unable to parse microservice url '' @ uri @ ''. '' @ err), w)"
  by (simp add: msSmtpdRcptTo_body_def)

lemma smtpdData_body_config_error:
  "newMicroservice (Parse env) uri = Inl err \<Longrightarrow>
   smtpdData_body env msg uri (hdrs, s, w) =
     Inr (hdrs, logError s (''unable to parse microservice url '' @ uri @ ''. '' @ err), w)"
  by (simp add: smtpdData_body_def)

lemma msSmtpdNewClient_body_skipped:
  "newMicroservice (Parse env) uri = Inr ms \<Longrightarrow> user s \<noteq> None \<Longrightarrow>
   skipAuthentifiedUser ms \<Longrightarrow> msSmtpdNewClient_body env msg uri (s, w) = Inr (s, w)"
  by (simp add: msSmtpdNewClient_body_def)

lemma msSmtpdRcptTo_body_skipped:
  "newMicroservice (Parse env) uri = Inr ms \<Longrightarrow> user s \<noteq> None \<Longrightarrow>
   skipAuthentifiedUser ms \<Longrightarrow> msSmtpdRcptTo_body env msg uri (s, w) = Inr (s, w)"
  by (simp add: msSmtpdRcptTo_body_def)

lemma smtpdData_body_skipped:
  "newMicroservice (Parse env) uri = Inr ms \<Longrightarrow> user s \<noteq> None \<Longrightarrow>
   skipAuthentifiedUser ms \<Longrightarrow> smtpdData_body env msg uri (hdrs, s, w) = Inr (hdrs, s, w)"
  by (simp add: smtpdData_body_def)

lemma msSmtpdNewClient_body_detached:
  "newMicroservice (Parse env) uri = Inr ms \<Longrightarrow>
   \<not> (user s \<noteq> None \<and> skipAuthentifiedUser ms) \<Longrightarrow> fireAndForget ms \<Longrightarrow>
   msSmtpdNewClient_body env msg uri (s, w) =
     Inr (log s (''calling '' @ url ms), go_call ms msg w)"
  by (auto simp: msSmtpdNewClient_body_def Let_def)

lemma msSmtpdRcptTo_body_detached:
  "newMicroservice (Parse env) uri = Inr ms \<Longrightarrow>
   \<not> (user s \<noteq> None \<and> skipAuthentifiedUser ms) \<Longrightarrow> fireAndForget ms \<Longrightarrow>
   msSmtpdRcptTo_body env msg uri (s, w) =
     Inr (log s (''calling '' @ url ms), go_call ms msg w)"
  by (auto simp: msSmtpdRcptTo_body_def Let_def)

lemma msSmtpdNewClient_body_user:
  assumes "msSmtpdNewClient_body env msg uri (s, w) = Inr (s', w')"
  shows "user s' = user s"
proof (cases "newMicroservice (Parse env) uri")
  case (Inl err)
  with assms show ?thesis by (auto simp: msSmtpdNewClient_body_config_error)
next
  case (Inr ms)
  consider "user s \<noteq> None \<and> skipAuthentifiedUser ms"
    | "\<not> (user s \<noteq> None \<and> skipAuthentifiedUser ms)" "fireAndForget ms"
    | "\<not> (user s \<noteq> None \<and> skipAuthentifiedUser ms)" "\<not> fireAndForget ms"
    by blast
  then show ?thesis
  proof cases
    case 1
    with assms Inr show ?thesis by (auto simp: msSmtpdNewClient_body_skipped)
  next
    case 2
    with assms Inr show ?thesis by (auto simp: msSmtpdNewClient_body_detached)
  next
    case 3
    from assms show ?thesis
      unfolding msSmtpdNewClient_body_called [OF Inr 3]
      by (auto split: sum.splits prod.splits if_splits dest: handleSMTPResponse_user)
  qed
qed

lemma msSmtpdRcptTo_body_user:
  assumes "msSmtpdRcptTo_body env msg uri (s, w) = Inr (s', w')"
  shows "user s' = user s"
proof (cases "newMicroservice (Parse env) uri")
  case (Inl err)
  with assms show ?thesis by (auto simp: msSmtpdRcptTo_body_config_error)
next
  case (Inr ms)
  consider "user s \<noteq> None \<and> skipAuthentifiedUser ms"
    | "\<not> (user s \<noteq> None \<and> skipAuthentifiedUser ms)" "fireAndForget ms"
    | "\<not> (user s \<noteq> None \<and> skipAuthentifiedUser ms)" "\<not> fireAndForget ms"
    by blast
  then show ?thesis
  proof cases
    case 1
    with assms Inr show ?thesis by (auto simp: msSmtpdRcptTo_body_skipped)
  next
    case 2
    with assms Inr show ?thesis by (auto simp: msSmtpdRcptTo_body_detached)
  next
    case 3
    from assms show ?thesis
      unfolding msSmtpdRcptTo_body_called [OF Inr 3]
      by (auto split: sum.splits prod.splits if_splits
          dest: handleSMTPResponse_user handleSMTPError_user)
  qed
qed

lemma smtpdData_body_user:
  assumes "smtpdData_body env msg uri (h, s, w) = Inr (h', s', w')"
  shows "user s' = user s"
proof (cases "newMicroservice (Parse env) uri")
  case (Inl err)
  with assms show ?thesis by (auto simp: smtpdData_body_config_error)
next
  case (Inr ms)
  show ?thesis
  proof (cases "user s \<noteq> None \<and> skipAuthentifiedUser ms")
    case True
    with assms Inr show ?thesis by (auto simp: smtpdData_body_skipped)
  next
    case False
    from assms show ?thesis
      unfolding smtpdData_body_called [OF Inr False]
      by (auto split: sum.splits prod.splits if_splits
          dest: handleSMTPResponse_user handleSMTPError_user)
  qed
qed

lemma for_range_invariant:
  assumes "for_range body xs st = Inr st'" and "P st"
    and "\<And>x a b. P a \<Longrightarrow> body x a = Inr b \<Longrightarrow> P b"
  shows "P st'"
  using assms(1,2)
proof (induction xs arbitrary: st)
  case Nil
  then show ?case by simp
next
  case (Cons x xs)
  then show ?case
    by (auto split: sum.splits intro: assms(3))
qed

lemma msSmtpdNewClient_reach_user:
  assumes "for_range (msSmtpdNewClient_body env msg) pre (s_in, w_in) = Inr (s, w)"
  shows "user s = user s_in"
  using for_range_invariant [OF assms, where P = "\<lambda>st. user (fst st) = user s_in"]
    msSmtpdNewClient_body_user
  by fastforce

lemma msSmtpdRcptTo_reach_user:
  assumes "for_range (msSmtpdRcptTo_body env msg) pre (s_in, w_in) = Inr (s, w)"
  shows "user s = user s_in"
  using for_range_invariant [OF assms, where P = "\<lambda>st. user (fst st) = user s_in"]
    msSmtpdRcptTo_body_user
  by fastforce

lemma smtpdData_reach_user:
  assumes "for_range (smtpdData_body env msg) pre (h_in, s_in, w_in) = Inr (h, s, w)"
  shows "user s = user s_in"
  using for_range_invariant [OF assms, where P = "\<lambda>st. user (fst (snd st)) = user s_in"]
    smtpdData_body_user
  by fastforce

lemmas run_eval =
  newMicroservice_def parser_eval example_env_def example_net_def example_reply_def answer_def
  call_def doRequest_def go_call_def stopOnError_def handleSMTPError_def handleSMTPResponse_def
  Sprintf_d_def out_def log_def logError_def exitAsap_def session0_def world0_def Let_def

lemma handleSMTPError_halts:
  "onFailure ms \<noteq> CONTINUE \<Longrightarrow>
   handleSMTPError ms (Some err) s =
     (True, out (logError s (''microservice '' @ url ms @ '' failed. '' @ err)) (policy_reply ms))"
  by (cases "onFailure ms") (simp_all add: handleSMTPError_def policy_reply_def)

lemma stopOnError_iff: "stopOnError ms = (onFailure ms \<noteq> CONTINUE)"
  by (cases "onFailure ms") (simp_all add: stopOnError_def)

lemma handleSMTPResponse_silent:
  "no_reply_text r \<Longrightarrow> handleSMTPResponse r s = (False, s)"
  by (auto simp: handleSMTPResponse_def no_reply_text_def split: option.splits)

lemma handleSMTPResponse_replies:
  "\<not> no_reply_text r \<Longrightarrow> fst (handleSMTPResponse r s) = True"
  by (auto simp: handleSMTPResponse_def no_reply_text_def Let_def split: option.splits)

lemma handleSMTPResponse_relayGranted:
  "relayGranted (snd (handleSMTPResponse r s)) = relayGranted s"
  by (auto simp: handleSMTPResponse_def out_def log_def Let_def split: option.splits)

lemma msSmtpdRcptTo_body_halting:
  assumes "newMicroservice (Parse env) uri = Inr ms"
    and "\<not> (user s \<noteq> None \<and> skipAuthentifiedUser ms)" and "\<not> fireAndForget ms"
    and "sync_outcome env (UnmarshalRcptTo env) ms msg w = Inr r" and "halting r"
  shows "\<exists>s' w'. msSmtpdRcptTo_body env msg uri (s, w) = Inl (True, s', w')
           \<and> relayGranted s' = GetRelayGranted r"
proof -
  let ?s1 = "(log s (''calling '' @ url ms))\<lparr>relayGranted := GetRelayGranted r\<rparr>"
  obtain stop s2 where h: "handleSMTPResponse (GetSmtpResponse r) ?s1 = (stop, s2)"
    by (cases "handleSMTPResponse (GetSmtpResponse r) ?s1")
  from h have rg: "relayGranted s2 = GetRelayGranted r"
    using handleSMTPResponse_relayGranted [of "GetSmtpResponse r" ?s1] by simp
  from h assms(5) have "GetDropConnection r \<or> stop"
    using handleSMTPResponse_replies [of "GetSmtpResponse r" ?s1]
    by (auto simp: halting_def)
  with h rg show ?thesis
    by (auto simp: msSmtpdRcptTo_body_called [OF assms(1-3)] assms(4) exitAsap_def)
qed

lemma smtpdData_body_halting:
  assumes "newMicroservice (Parse env) uri = Inr ms"
    and "\<not> (user s \<noteq> None \<and> skipAuthentifiedUser ms)"
    and "sync_outcome env (UnmarshalData env) ms msg w = Inr r" and "halting r"
  shows "\<exists>s' w'. smtpdData_body env msg uri (hdrs, s, w) =
           Inl (True, hdrs @ GetExtraHeaders r, s', w')"
proof -
  let ?s1 = "log s (''calling '' @ url ms)"
  obtain stop s2 where h: "handleSMTPResponse (GetSmtpResponse r) ?s1 = (stop, s2)"
    by (cases "handleSMTPResponse (GetSmtpResponse r) ?s1")
  from h assms(4) have "GetDropConnection r \<or> stop"
    using handleSMTPResponse_replies [of "GetSmtpResponse r" ?s1]
    by (auto simp: halting_def)
  with h show ?thesis
    by (auto simp: smtpdData_body_called [OF assms(1-2)] assms(3))
qed

section \<open>Skipping endpoints for authenticated sessions\<close>

text \<open>
  C8. On a session that is authenticated when the hook starts, an endpoint whose
  descriptor has \<open>skipAuthentifiedUser\<close> leaves no trace: wherever it stands in the
  configured list, the run goes on with the endpoints after it from the very session
  and world it reached the endpoint with, so nothing is posted, nothing is handed to a
  goroutine, nothing is logged and no reply is written for it, whatever its policy and
  its \<open>fireAndForget\<close> flag. This holds in each of the three session hooks.
\<close>

theorem skipped_endpoint_untouched:
  assumes "newMicroservice (Parse env) uri = Inr ms" and "skipAuthentifiedUser ms"
    and "user s_in \<noteq> None"
  shows
   "(GetMicroservicesUri env ''smtpdnewclient'' = pre @ uri # rest
       \<and> Marshal env (SmtpdNewClientQuery (uuid s_in) (remoteAddr s_in)) = Inr msg
       \<and> for_range (msSmtpdNewClient_body env msg) pre (s_in, w_in) = Inr (s, w)
     \<longrightarrow> msSmtpdNewClient env s_in w_in = msSmtpdNewClient_loop env msg rest (s, w))
  \<and> (GetMicroservicesUri env ''smtpdrcptto'' = pre @ uri # rest
       \<and> Marshal env (SmtpdRcptToQuery (uuid s_in) rcptTo) = Inr msg
       \<and> for_range (msSmtpdRcptTo_body env msg) pre (s_in, w_in) = Inr (s, w)
     \<longrightarrow> msSmtpdRcptTo env s_in rcptTo w_in = msSmtpdRcptTo_loop env msg rest (s, w))
  \<and> (GetMicroservicesUri env ''smtpddata'' = pre @ uri # rest
       \<and> TempFile env (GetTempDir env) = Inr name
       \<and> Write env name rawMail = None
       \<and> Marshal env (SmtpdDataQuery (uuid s_in) (smtpdData_link env name)) = Inr msg
       \<and> for_range (smtpdData_body env msg) pre
             ([], s_in, w_in\<lparr>tempfiles := tempfiles w_in @ [name]\<rparr>) = Inr (hdrs, s, w)
     \<longrightarrow> smtpdData env s_in rawMail w_in =
           deferred_Remove name (smtpdData_loop env msg rest (hdrs, s, w)))"
proof (intro conjI impI; elim conjE)
  assume cfg: "GetMicroservicesUri env ''smtpdnewclient'' = pre @ uri # rest"
    and m: "Marshal env (SmtpdNewClientQuery (uuid s_in) (remoteAddr s_in)) = Inr msg"
    and reach: "for_range (msSmtpdNewClient_body env msg) pre (s_in, w_in) = Inr (s, w)"
  from reach assms(3) have "user s \<noteq> None"
    by (simp add: msSmtpdNewClient_reach_user)
  then show "msSmtpdNewClient env s_in w_in = msSmtpdNewClient_loop env msg rest (s, w)"
    by (simp add: msSmtpdNewClient_run [OF cfg m reach]
        msSmtpdNewClient_body_skipped [OF assms(1) _ assms(2)])
next
  assume cfg: "GetMicroservicesUri env ''smtpdrcptto'' = pre @ uri # rest"
    and m: "Marshal env (SmtpdRcptToQuery (uuid s_in) rcptTo) = Inr msg"
    and reach: "for_range (msSmtpdRcptTo_body env msg) pre (s_in, w_in) = Inr (s, w)"
  from reach assms(3) have "user s \<noteq> None"
    by (simp add: msSmtpdRcptTo_reach_user)
  then show "msSmtpdRcptTo env s_in rcptTo w_in = msSmtpdRcptTo_loop env msg rest (s, w)"
    by (simp add: msSmtpdRcptTo_run [OF cfg m reach]
        msSmtpdRcptTo_body_skipped [OF assms(1) _ assms(2)])
next
  assume cfg: "GetMicroservicesUri env ''smtpddata'' = pre @ uri # rest"
    and tf: "TempFile env (GetTempDir env) = Inr name"
    and wr: "Write env name rawMail = None"
    and m: "Marshal env (SmtpdDataQuery (uuid s_in) (smtpdData_link env name)) = Inr msg"
    and reach: "for_range (smtpdData_body env msg) pre
             ([], s_in, w_in\<lparr>tempfiles := tempfiles w_in @ [name]\<rparr>) = Inr (hdrs, s, w)"
  from reach assms(3) have "user s \<noteq> None"
    by (simp add: smtpdData_reach_user)
  then show "smtpdData env s_in rawMail w_in =
           deferred_Remove name (smtpdData_loop env msg rest (hdrs, s, w))"
    by (simp add: smtpdData_run [OF cfg tf wr m reach]
        smtpdData_body_skipped [OF assms(1) _ assms(2)])
qed

theorem skipped_endpoint_untouched_witness:
  "msSmtpdNewClient skip_env (session0\<lparr>user := Some ''bob''\<rparr>) world0 =
     (False, session0\<lparr>user := Some ''bob'', logged := [LogInfo ''calling a://c'']\<rparr>,
      world0\<lparr>requests := [(''a://c'', ''q'')]\<rparr>)
   \<and> msSmtpdRcptTo skip_env (session0\<lparr>user := Some ''bob''\<rparr>) ''x@y'' world0 =
     (False, session0\<lparr>user := Some ''bob'', relayGranted := True,
                      logged := [LogInfo ''calling a://c'']\<rparr>,
      world0\<lparr>requests := [(''a://c'', ''q'')]\<rparr>)
   \<and> smtpdData skip_env (session0\<lparr>user := Some ''bob''\<rparr>) ''mail'' world0 =
     (False, [''X-Checked: yes''],
      session0\<lparr>user := Some ''bob'', logged := [LogInfo ''calling a://c'']\<rparr>,
      world0\<lparr>requests := [(''a://c'', ''q'')]\<rparr>)"
proof -
  let ?uri = "''a://b?skipauthentifieduser=true&onfailure=permfail''"
  let ?ms = "\<lparr>url = ''a://b'', skipAuthentifiedUser = True, fireAndForget = False,
              timeout = 30, onFailure = PERMFAIL\<rparr>"
  let ?s = "session0\<lparr>user := Some ''bob''\<rparr>"
  have ms: "newMicroservice (Parse skip_env) ?uri = Inr ?ms"
    by (simp add: skip_env_def run_eval)
  have sk: "skipAuthentifiedUser ?ms" by simp
  have au: "user ?s \<noteq> None" by simp
  note inst = skipped_endpoint_untouched [OF ms sk au, where pre = "[]" and rest = "[''a://c'']"
      and msg = "''q''" and s = ?s and name = "''/tmp/421337''"
      and rawMail = "''mail''" and rcptTo = "''x@y''" and hdrs = "[]"]
  have 1: "msSmtpdNewClient skip_env ?s world0 = msSmtpdNewClient_loop skip_env ''q'' [''a://c''] (?s, world0)"
    using inst [where w_in = world0 and w = world0, THEN conjunct1]
    by (simp add: skip_env_def example_env_def)
  have 2: "msSmtpdRcptTo skip_env ?s ''x@y'' world0 = msSmtpdRcptTo_loop skip_env ''q'' [''a://c''] (?s, world0)"
    using inst [where w_in = world0 and w = world0, THEN conjunct2, THEN conjunct1]
    by (simp add: skip_env_def example_env_def)
  have 3: "smtpdData skip_env ?s ''mail'' world0 =
      deferred_Remove ''/tmp/421337''
        (smtpdData_loop skip_env ''q'' [''a://c''] ([], ?s, world0\<lparr>tempfiles := [''/tmp/421337'']\<rparr>))"
    using inst [where w_in = world0 and w = "world0\<lparr>tempfiles := [''/tmp/421337'']\<rparr>",
        THEN conjunct2, THEN conjunct2]
    by (simp add: skip_env_def example_env_def world0_def)
  show ?thesis
    unfolding 1 2 3
    by (simp add: skip_env_def msSmtpdNewClient_loop_def msSmtpdNewClient_body_def
        msSmtpdRcptTo_loop_def msSmtpdRcptTo_body_def smtpdData_loop_def smtpdData_body_def
        deferred_Remove_def Remove_def run_eval)
qed

section \<open>Failures under a halting policy\<close>

text \<open>
  C1, as the code has it. Take an endpoint whose policy is TEMPFAIL or PERMFAIL, that is
  called synchronously (not skipped for an authenticated session, not fire-and-forget),
  and whose call fails in the transport or in the decoding of the response. In RcptTo
  and Data the run returns at once with \<open>stop = true\<close>: the session has the lines
  \<open>calling\<close> and \<open>failed\<close> added to its log and the reply 450 (TEMPFAIL) or 550
  (PERMFAIL) added to what was sent, the world has this one request added, and no
  endpoint after it is contacted. In NewClient the run returns at once as well, with the
  same log lines and the same single request, and writes no reply.
\<close>

theorem failure_policy_halts:
  assumes "newMicroservice (Parse env) uri = Inr ms"
    and "onFailure ms = TEMPFAIL \<or> onFailure ms = PERMFAIL"
    and "\<not> fireAndForget ms"
    and "\<not> (user s \<noteq> None \<and> skipAuthentifiedUser ms)"
  shows
   "(GetMicroservicesUri env ''smtpdrcptto'' = pre @ uri # rest
       \<and> Marshal env (SmtpdRcptToQuery (uuid s_in) rcptTo) = Inr msg
       \<and> for_range (msSmtpdRcptTo_body env msg) pre (s_in, w_in) = Inr (s, w)
       \<and> sync_outcome env (UnmarshalRcptTo env) ms msg w = Inl err
     \<longrightarrow> msSmtpdRcptTo env s_in rcptTo w_in =
           (True,
            s\<lparr>logged := logged s @ [LogInfo (''calling '' @ url ms),
                  LogError (''microservice '' @ url ms @ '' failed. '' @ err)],
              sent := sent s @ [policy_reply ms]\<rparr>,
            w\<lparr>requests := requests w @ [(url ms, msg)]\<rparr>))
  \<and> (GetMicroservicesUri env ''smtpddata'' = pre @ uri # rest
       \<and> TempFile env (GetTempDir env) = Inr name
       \<and> Write env name rawMail = None
       \<and> Marshal env (SmtpdDataQuery (uuid s_in) (smtpdData_link env name)) = Inr msg
       \<and> for_range (smtpdData_body env msg) pre
             ([], s_in, w_in\<lparr>tempfiles := tempfiles w_in @ [name]\<rparr>) = Inr (hdrs, s, w)
       \<and> sync_outcome env (UnmarshalData env) ms msg w = Inl err
     \<longrightarrow> smtpdData env s_in rawMail w_in =
           (True, hdrs,
            s\<lparr>logged := logged s @ [LogInfo (''calling '' @ url ms),
                  LogError (''microservice '' @ url ms @ '' failed. '' @ err)],
              sent := sent s @ [policy_reply ms]\<rparr>,
            Remove name (w\<lparr>requests := requests w @ [(url ms, msg)]\<rparr>)))
  \<and> (GetMicroservicesUri env ''smtpdnewclient'' = pre @ uri # rest
       \<and> Marshal env (SmtpdNewClientQuery (uuid s_in) (remoteAddr s_in)) = Inr msg
       \<and> for_range (msSmtpdNewClient_body env msg) pre (s_in, w_in) = Inr (s, w)
       \<and> sync_outcome env (UnmarshalNewClient env) ms msg w = Inl err
     \<longrightarrow> snd (msSmtpdNewClient env s_in w_in) =
           (s\<lparr>logged := logged s @ [LogInfo (''calling '' @ url ms),
                  LogError (''microservice '' @ url ms @ '' failed. '' @ err)]\<rparr>,
            w\<lparr>requests := requests w @ [(url ms, msg)]\<rparr>))"
proof -
  from assms(2) have pol: "onFailure ms \<noteq> CONTINUE" by auto
  show ?thesis
  proof (intro conjI impI; elim conjE)
    assume cfg: "GetMicroservicesUri env ''smtpdrcptto'' = pre @ uri # rest"
      and m: "Marshal env (SmtpdRcptToQuery (uuid s_in) rcptTo) = Inr msg"
      and reach: "for_range (msSmtpdRcptTo_body env msg) pre (s_in, w_in) = Inr (s, w)"
      and fail: "sync_outcome env (UnmarshalRcptTo env) ms msg w = Inl err"
    show "msSmtpdRcptTo env s_in rcptTo w_in =
           (True,
            s\<lparr>logged := logged s @ [LogInfo (''calling '' @ url ms),
                  LogError (''microservice '' @ url ms @ '' failed. '' @ err)],
              sent := sent s @ [policy_reply ms]\<rparr>,
            w\<lparr>requests := requests w @ [(url ms, msg)]\<rparr>)"
      by (simp add: msSmtpdRcptTo_run [OF cfg m reach]
          msSmtpdRcptTo_body_called [OF assms(1) assms(4) assms(3)] fail
          handleSMTPError_halts [OF pol] call_world out_def log_def logError_def)
  next
    assume cfg: "GetMicroservicesUri env ''smtpddata'' = pre @ uri # rest"
      and tf: "TempFile env (GetTempDir env) = Inr name"
      and wr: "Write env name rawMail = None"
      and m: "Marshal env (SmtpdDataQuery (uuid s_in) (smtpdData_link env name)) = Inr msg"
      and reach: "for_range (smtpdData_body env msg) pre
             ([], s_in, w_in\<lparr>tempfiles := tempfiles w_in @ [name]\<rparr>) = Inr (hdrs, s, w)"
      and fail: "sync_outcome env (UnmarshalData env) ms msg w = Inl err"
    show "smtpdData env s_in rawMail w_in =
           (True, hdrs,
            s\<lparr>logged := logged s @ [LogInfo (''calling '' @ url ms),
                  LogError (''microservice '' @ url ms @ '' failed. '' @ err)],
              sent := sent s @ [policy_reply ms]\<rparr>,
            Remove name (w\<lparr>requests := requests w @ [(url ms, msg)]\<rparr>))"
      by (simp add: smtpdData_run [OF cfg tf wr m reach]
          smtpdData_body_called [OF assms(1) assms(4)] fail
          handleSMTPError_halts [OF pol] call_world deferred_Remove_def out_def log_def
          logError_def)
  next
    assume cfg: "GetMicroservicesUri env ''smtpdnewclient'' = pre @ uri # rest"
      and m: "Marshal env (SmtpdNewClientQuery (uuid s_in) (remoteAddr s_in)) = Inr msg"
      and reach: "for_range (msSmtpdNewClient_body env msg) pre (s_in, w_in) = Inr (s, w)"
      and fail: "sync_outcome env (UnmarshalNewClient env) ms msg w = Inl err"
    show "snd (msSmtpdNewClient env s_in w_in) =
           (s\<lparr>logged := logged s @ [LogInfo (''calling '' @ url ms),
                  LogError (''microservice '' @ url ms @ '' failed. '' @ err)]\<rparr>,
            w\<lparr>requests := requests w @ [(url ms, msg)]\<rparr>)"
      by (simp add: msSmtpdNewClient_run [OF cfg m reach]
          msSmtpdNewClient_body_called [OF assms(1) assms(4) assms(3)] fail
          stopOnError_iff pol call_world log_def logError_def)
  qed
qed

theorem failure_policy_halts_witness:
  "msSmtpdRcptTo halt_env session0 ''x@y'' world0 =
     (True,
      session0\<lparr>sent := [''450 sorry something wrong happened''],
               logged := [LogInfo ''calling a://b'',
                          LogError ''microservice a://b failed. connection refused'']\<rparr>,
      world0\<lparr>requests := [(''a://b'', ''q'')]\<rparr>)
   \<and> smtpdData halt_env session0 ''mail'' world0 =
     (True, [],
      session0\<lparr>sent := [''450 sorry something wrong happened''],
               logged := [LogInfo ''calling a://b'',
                          LogError ''microservice a://b failed. connection refused'']\<rparr>,
      world0\<lparr>requests := [(''a://b'', ''q'')]\<rparr>)
   \<and> snd (msSmtpdNewClient halt_env session0 world0) =
     (session0\<lparr>logged := [LogInfo ''calling a://b'',
                          LogError ''microservice a://b failed. connection refused'']\<rparr>,
      world0\<lparr>requests := [(''a://b'', ''q'')]\<rparr>)"
proof -
  let ?uri = "''a://b?onfailure=tempfail''"
  let ?ms = "\<lparr>url = ''a://b'', skipAuthentifiedUser = False, fireAndForget = False,
              timeout = 30, onFailure = TEMPFAIL\<rparr>"
  let ?wd = "world0\<lparr>tempfiles := [''/tmp/421337'']\<rparr>"
  have ms: "newMicroservice (Parse halt_env) ?uri = Inr ?ms"
    by (simp add: halt_env_def run_eval)
  have pol: "onFailure ?ms = TEMPFAIL \<or> onFailure ?ms = PERMFAIL" by simp
  have sync: "\<not> fireAndForget ?ms" by simp
  have ns: "\<not> (user session0 \<noteq> None \<and> skipAuthentifiedUser ?ms)" by simp
  note inst = failure_policy_halts [OF ms pol sync ns, where pre = "[]" and rest = "[''a://c'']"
      and msg = "''q''" and s_in = session0 and err = "''connection refused''"
      and name = "''/tmp/421337''" and rawMail = "''mail''" and rcptTo = "''x@y''"
      and hdrs = "[]"]
  have f1: "sync_outcome halt_env (UnmarshalRcptTo halt_env) ?ms ''q'' world0 = Inl ''connection refused''"
    "sync_outcome halt_env (UnmarshalNewClient halt_env) ?ms ''q'' world0 = Inl ''connection refused''"
    "sync_outcome halt_env (UnmarshalData halt_env) ?ms ''q'' ?wd = Inl ''connection refused''"
    by (simp_all add: sync_outcome_def halt_env_def run_eval)
  have r1: "msSmtpdRcptTo halt_env session0 ''x@y'' world0 =
     (True,
      session0\<lparr>sent := [''450 sorry something wrong happened''],
               logged := [LogInfo ''calling a://b'',
                          LogError ''microservice a://b failed. connection refused'']\<rparr>,
      world0\<lparr>requests := [(''a://b'', ''q'')]\<rparr>)"
    using inst [where w_in = world0 and w = world0, THEN conjunct1] f1
    by (simp add: halt_env_def example_env_def policy_reply_def out_def log_def logError_def
        session0_def world0_def)
  have r2: "smtpdData halt_env session0 ''mail'' world0 =
     (True, [],
      session0\<lparr>sent := [''450 sorry something wrong happened''],
               logged := [LogInfo ''calling a://b'',
                          LogError ''microservice a://b failed. connection refused'']\<rparr>,
      world0\<lparr>requests := [(''a://b'', ''q'')]\<rparr>)"
    using inst [where w_in = world0 and w = ?wd, THEN conjunct2, THEN conjunct1] f1
    by (simp add: halt_env_def example_env_def policy_reply_def out_def log_def logError_def
        session0_def world0_def Remove_def)
  have r3: "snd (msSmtpdNewClient halt_env session0 world0) =
     (session0\<lparr>logged := [LogInfo ''calling a://b'',
                          LogError ''microservice a://b failed. connection refused'']\<rparr>,
      world0\<lparr>requests := [(''a://b'', ''q'')]\<rparr>)"
    using inst [where w_in = world0 and w = world0, THEN conjunct2, THEN conjunct2] f1
    by (simp add: halt_env_def example_env_def policy_reply_def out_def log_def logError_def
        session0_def world0_def)
  from r1 r2 r3 show ?thesis by simp
qed

text \<open>
  C1 as stated fails for NewClient: a PERMFAIL endpoint whose call is refused ends the
  run, and the session is sent nothing.
\<close>

theorem newclient_failure_writes_no_reply:
  "newMicroservice (Parse permfail_env) ''a://b?onfailure=permfail'' =
     Inr \<lparr>url = ''a://b'', skipAuthentifiedUser = False, fireAndForget = False,
          timeout = 30, onFailure = PERMFAIL\<rparr>
   \<and> fst (call permfail_env
             \<lparr>url = ''a://b'', skipAuthentifiedUser = False, fireAndForget = False,
              timeout = 30, onFailure = PERMFAIL\<rparr> ''q'' world0) = Inl ''connection refused''
   \<and> msSmtpdNewClient permfail_env session0 world0 =
     (False,
      session0\<lparr>logged := [LogInfo ''calling a://b'',
                          LogError ''microservice a://b failed. connection refused'']\<rparr>,
      world0\<lparr>requests := [(''a://b'', ''q'')]\<rparr>)
   \<and> sent (fst (snd (msSmtpdNewClient permfail_env session0 world0))) = []"
  by (simp add: permfail_env_def msSmtpdNewClient_def msSmtpdNewClient_loop_def
      msSmtpdNewClient_body_def run_eval)

section \<open>Dropping the connection without a reply\<close>

text \<open>
  C9. A decoded response that asks to drop the connection and carries no reply text
  (no reply, or code zero, or an empty message) ends the run with \<open>stop = true\<close> and the
  session marked as exiting; nothing is added to what was sent. This holds in the three
  session hooks for an endpoint that is called synchronously.
\<close>

theorem drop_without_reply_stops:
  assumes "newMicroservice (Parse env) uri = Inr ms"
    and "\<not> fireAndForget ms"
    and "\<not> (user s \<noteq> None \<and> skipAuthentifiedUser ms)"
  shows
   "(GetMicroservicesUri env ''smtpdnewclient'' = pre @ uri # rest
       \<and> Marshal env (SmtpdNewClientQuery (uuid s_in) (remoteAddr s_in)) = Inr msg
       \<and> for_range (msSmtpdNewClient_body env msg) pre (s_in, w_in) = Inr (s, w)
       \<and> sync_outcome env (UnmarshalNewClient env) ms msg w = Inr r
       \<and> GetDropConnection r \<and> no_reply_text (GetSmtpResponse r)
     \<longrightarrow> msSmtpdNewClient env s_in w_in =
           (True,
            s\<lparr>logged := logged s @ [LogInfo (''calling '' @ url ms)], exiting := True\<rparr>,
            w\<lparr>requests := requests w @ [(url ms, msg)]\<rparr>))
  \<and> (GetMicroservicesUri env ''smtpdrcptto'' = pre @ uri # rest
       \<and> Marshal env (SmtpdRcptToQuery (uuid s_in) rcptTo) = Inr msg
       \<and> for_range (msSmtpdRcptTo_body env msg) pre (s_in, w_in) = Inr (s, w)
       \<and> sync_outcome env (UnmarshalRcptTo env) ms msg w = Inr rr
       \<and> GetDropConnection rr \<and> no_reply_text (GetSmtpResponse rr)
     \<longrightarrow> msSmtpdRcptTo env s_in rcptTo w_in =
           (True,
            s\<lparr>logged := logged s @ [LogInfo (''calling '' @ url ms)],
              relayGranted := GetRelayGranted rr, exiting := True\<rparr>,
            w\<lparr>requests := requests w @ [(url ms, msg)]\<rparr>))
  \<and> (GetMicroservicesUri env ''smtpddata'' = pre @ uri # rest
       \<and> TempFile env (GetTempDir env) = Inr name
       \<and> Write env name rawMail = None
       \<and> Marshal env (SmtpdDataQuery (uuid s_in) (smtpdData_link env name)) = Inr msg
       \<and> for_range (smtpdData_body env msg) pre
             ([], s_in, w_in\<lparr>tempfiles := tempfiles w_in @ [name]\<rparr>) = Inr (hdrs, s, w)
       \<and> sync_outcome env (UnmarshalData env) ms msg w = Inr rd
       \<and> GetDropConnection rd \<and> no_reply_text (GetSmtpResponse rd)
     \<longrightarrow> smtpdData env s_in rawMail w_in =
           (True, hdrs @ GetExtraHeaders rd,
            s\<lparr>logged := logged s @ [LogInfo (''calling '' @ url ms)], exiting := True\<rparr>,
            Remove name (w\<lparr>requests := requests w @ [(url ms, msg)]\<rparr>)))"
proof (intro conjI impI; elim conjE)
  assume cfg: "GetMicroservicesUri env ''smtpdnewclient'' = pre @ uri # rest"
    and m: "Marshal env (SmtpdNewClientQuery (uuid s_in) (remoteAddr s_in)) = Inr msg"
    and reach: "for_range (msSmtpdNewClient_body env msg) pre (s_in, w_in) = Inr (s, w)"
    and dec: "sync_outcome env (UnmarshalNewClient env) ms msg w = Inr r"
    and dr: "GetDropConnection r" "no_reply_text (GetSmtpResponse r)"
  show "msSmtpdNewClient env s_in w_in =
           (True,
            s\<lparr>logged := logged s @ [LogInfo (''calling '' @ url ms)], exiting := True\<rparr>,
            w\<lparr>requests := requests w @ [(url ms, msg)]\<rparr>)"
    by (simp add: msSmtpdNewClient_run [OF cfg m reach]
        msSmtpdNewClient_body_called [OF assms(1) assms(3) assms(2)] dec dr
        handleSMTPResponse_silent call_world log_def exitAsap_def)
next
  assume cfg: "GetMicroservicesUri env ''smtpdrcptto'' = pre @ uri # rest"
    and m: "Marshal env (SmtpdRcptToQuery (uuid s_in) rcptTo) = Inr msg"
    and reach: "for_range (msSmtpdRcptTo_body env msg) pre (s_in, w_in) = Inr (s, w)"
    and dec: "sync_outcome env (UnmarshalRcptTo env) ms msg w = Inr rr"
    and dr: "GetDropConnection rr" "no_reply_text (GetSmtpResponse rr)"
  show "msSmtpdRcptTo env s_in rcptTo w_in =
           (True,
            s\<lparr>logged := logged s @ [LogInfo (''calling '' @ url ms)],
              relayGranted := GetRelayGranted rr, exiting := True\<rparr>,
            w\<lparr>requests := requests w @ [(url ms, msg)]\<rparr>)"
    by (simp add: msSmtpdRcptTo_run [OF cfg m reach]
        msSmtpdRcptTo_body_called [OF assms(1) assms(3) assms(2)] dec dr
        handleSMTPResponse_silent call_world log_def exitAsap_def)
next
  assume cfg: "GetMicroservicesUri env ''smtpddata'' = pre @ uri # rest"
    and tf: "TempFile env (GetTempDir env) = Inr name"
    and wr: "Write env name rawMail = None"
    and m: "Marshal env (SmtpdDataQuery (uuid s_in) (smtpdData_link env name)) = Inr msg"
    and reach: "for_range (smtpdData_body env msg) pre
             ([], s_in, w_in\<lparr>tempfiles := tempfiles w_in @ [name]\<rparr>) = Inr (hdrs, s, w)"
    and dec: "sync_outcome env (UnmarshalData env) ms msg w = Inr rd"
    and dr: "GetDropConnection rd" "no_reply_text (GetSmtpResponse rd)"
  show "smtpdData env s_in rawMail w_in =
           (True, hdrs @ GetExtraHeaders rd,
            s\<lparr>logged := logged s @ [LogInfo (''calling '' @ url ms)], exiting := True\<rparr>,
            Remove name (w\<lparr>requests := requests w @ [(url ms, msg)]\<rparr>))"
    by (simp add: smtpdData_run [OF cfg tf wr m reach]
        smtpdData_body_called [OF assms(1) assms(3)] dec dr
        handleSMTPResponse_silent call_world log_def exitAsap_def deferred_Remove_def)
qed

theorem drop_without_reply_stops_witness:
  "msSmtpdNewClient drop_env session0 world0 =
     (True, session0\<lparr>logged := [LogInfo ''calling a://b''], exiting := True\<rparr>,
      world0\<lparr>requests := [(''a://b'', ''q'')]\<rparr>)
   \<and> msSmtpdRcptTo drop_env session0 ''x@y'' world0 =
     (True, session0\<lparr>relayGranted := True, logged := [LogInfo ''calling a://b''],
                     exiting := True\<rparr>,
      world0\<lparr>requests := [(''a://b'', ''q'')]\<rparr>)
   \<and> smtpdData drop_env session0 ''mail'' world0 =
     (True, [''X-Checked: yes''],
      session0\<lparr>logged := [LogInfo ''calling a://b''], exiting := True\<rparr>,
      world0\<lparr>requests := [(''a://b'', ''q'')]\<rparr>)"
proof -
  let ?ms = "\<lparr>url = ''a://b'', skipAuthentifiedUser = False, fireAndForget = False,
              timeout = 30, onFailure = CONTINUE\<rparr>"
  let ?wd = "world0\<lparr>tempfiles := [''/tmp/421337'']\<rparr>"
  have ms: "newMicroservice (Parse drop_env) ''a://b'' = Inr ?ms"
    by (simp add: drop_env_def run_eval)
  have sync: "\<not> fireAndForget ?ms" by simp
  have ns: "\<not> (user session0 \<noteq> None \<and> skipAuthentifiedUser ?ms)" by simp
  note inst = drop_without_reply_stops [OF ms sync ns, where pre = "[]" and rest = "[''a://c'']"
      and msg = "''q''" and s_in = session0 and name = "''/tmp/421337''"
      and rawMail = "''mail''" and rcptTo = "''x@y''" and hdrs = "[]"
      and r = "\<lparr>GetSmtpResponse = None, GetDropConnection = True\<rparr>"
      and rr = "\<lparr>GetSmtpResponse = None, GetDropConnection = True, GetRelayGranted = True\<rparr>"
      and rd = "\<lparr>GetSmtpResponse = None, GetDropConnection = True,
                 GetExtraHeaders = [''X-Checked: yes'']\<rparr>"]
  have d: "sync_outcome drop_env (UnmarshalNewClient drop_env) ?ms ''q'' world0 =
             Inr \<lparr>GetSmtpResponse = None, GetDropConnection = True\<rparr>"
    "sync_outcome drop_env (UnmarshalRcptTo drop_env) ?ms ''q'' world0 =
             Inr \<lparr>GetSmtpResponse = None, GetDropConnection = True, GetRelayGranted = True\<rparr>"
    "sync_outcome drop_env (UnmarshalData drop_env) ?ms ''q'' ?wd =
             Inr \<lparr>GetSmtpResponse = None, GetDropConnection = True,
                  GetExtraHeaders = [''X-Checked: yes'']\<rparr>"
    by (simp_all add: sync_outcome_def drop_env_def run_eval)
  have r1: "msSmtpdNewClient drop_env session0 world0 =
     (True, session0\<lparr>logged := [LogInfo ''calling a://b''], exiting := True\<rparr>,
      world0\<lparr>requests := [(''a://b'', ''q'')]\<rparr>)"
    using inst [where w_in = world0 and w = world0, THEN conjunct1] d
    by (simp add: drop_env_def example_env_def no_reply_text_def session0_def world0_def)
  have r2: "msSmtpdRcptTo drop_env session0 ''x@y'' world0 =
     (True, session0\<lparr>relayGranted := True, logged := [LogInfo ''calling a://b''],
                     exiting := True\<rparr>,
      world0\<lparr>requests := [(''a://b'', ''q'')]\<rparr>)"
    using inst [where w_in = world0 and w = world0, THEN conjunct2, THEN conjunct1] d
    by (simp add: drop_env_def example_env_def no_reply_text_def session0_def world0_def)
  have r3: "smtpdData drop_env session0 ''mail'' world0 =
     (True, [''X-Checked: yes''],
      session0\<lparr>logged := [LogInfo ''calling a://b''], exiting := True\<rparr>,
      world0\<lparr>requests := [(''a://b'', ''q'')]\<rparr>)"
    using inst [where w_in = world0 and w = ?wd, THEN conjunct2, THEN conjunct2] d
    by (simp add: drop_env_def example_env_def no_reply_text_def session0_def world0_def
        Remove_def)
  from r1 r2 r3 show ?thesis by simp
qed

section \<open>Replies without code or text\<close>

text \<open>
  C10. For a reply with code zero or an empty message, \<open>handleSMTPResponse\<close> returns
  false and leaves the session as it was; when the response does not ask to drop the
  connection either, the run goes on with the next endpoint, with only the \<open>calling\<close>
  line logged (and the hook's own data folded), and nothing written to the client.
\<close>

theorem blank_reply_discarded:
  assumes "newMicroservice (Parse env) uri = Inr ms"
    and "\<not> fireAndForget ms"
    and "\<not> (user s \<noteq> None \<and> skipAuthentifiedUser ms)"
    and "GetCode p = 0 \<or> GetMsg p = []"
  shows
   "handleSMTPResponse (Some p) s = (False, s)
  \<and> (GetMicroservicesUri env ''smtpdnewclient'' = pre @ uri # rest
       \<and> Marshal env (SmtpdNewClientQuery (uuid s_in) (remoteAddr s_in)) = Inr msg
       \<and> for_range (msSmtpdNewClient_body env msg) pre (s_in, w_in) = Inr (s, w)
       \<and> sync_outcome env (UnmarshalNewClient env) ms msg w = Inr r
       \<and> GetSmtpResponse r = Some p \<and> \<not> GetDropConnection r
     \<longrightarrow> msSmtpdNewClient env s_in w_in =
           msSmtpdNewClient_loop env msg rest
             (s\<lparr>logged := logged s @ [LogInfo (''calling '' @ url ms)]\<rparr>,
              w\<lparr>requests := requests w @ [(url ms, msg)]\<rparr>))
  \<and> (GetMicroservicesUri env ''smtpdrcptto'' = pre @ uri # rest
       \<and> Marshal env (SmtpdRcptToQuery (uuid s_in) rcptTo) = Inr msg
       \<and> for_range (msSmtpdRcptTo_body env msg) pre (s_in, w_in) = Inr (s, w)
       \<and> sync_outcome env (UnmarshalRcptTo env) ms msg w = Inr rr
       \<and> GetSmtpResponse rr = Some p \<and> \<not> GetDropConnection rr
     \<longrightarrow> msSmtpdRcptTo env s_in rcptTo w_in =
           msSmtpdRcptTo_loop env msg rest
             (s\<lparr>logged := logged s @ [LogInfo (''calling '' @ url ms)],
                relayGranted := GetRelayGranted rr\<rparr>,
              w\<lparr>requests := requests w @ [(url ms, msg)]\<rparr>))
  \<and> (GetMicroservicesUri env ''smtpddata'' = pre @ uri # rest
       \<and> TempFile env (GetTempDir env) = Inr name
       \<and> Write env name rawMail = None
       \<and> Marshal env (SmtpdDataQuery (uuid s_in) (smtpdData_link env name)) = Inr msg
       \<and> for_range (smtpdData_body env msg) pre
             ([], s_in, w_in\<lparr>tempfiles := tempfiles w_in @ [name]\<rparr>) = Inr (hdrs, s, w)
       \<and> sync_outcome env (UnmarshalData env) ms msg w = Inr rd
       \<and> GetSmtpResponse rd = Some p \<and> \<not> GetDropConnection rd
     \<longrightarrow> smtpdData env s_in rawMail w_in =
           deferred_Remove name
             (smtpdData_loop env msg rest
                (hdrs @ GetExtraHeaders rd,
                 s\<lparr>logged := logged s @ [LogInfo (''calling '' @ url ms)]\<rparr>,
                 w\<lparr>requests := requests w @ [(url ms, msg)]\<rparr>)))"
proof -
  from assms(4) have blank: "no_reply_text (Some p)"
    by (simp add: no_reply_text_def)
  show ?thesis
  proof (intro conjI impI; (elim conjE)?)
    show "handleSMTPResponse (Some p) s = (False, s)"
      using blank by (rule handleSMTPResponse_silent)
  next
    assume cfg: "GetMicroservicesUri env ''smtpdnewclient'' = pre @ uri # rest"
      and m: "Marshal env (SmtpdNewClientQuery (uuid s_in) (remoteAddr s_in)) = Inr msg"
      and reach: "for_range (msSmtpdNewClient_body env msg) pre (s_in, w_in) = Inr (s, w)"
      and dec: "sync_outcome env (UnmarshalNewClient env) ms msg w = Inr r"
      and rp: "GetSmtpResponse r = Some p" "\<not> GetDropConnection r"
    show "msSmtpdNewClient env s_in w_in =
           msSmtpdNewClient_loop env msg rest
             (s\<lparr>logged := logged s @ [LogInfo (''calling '' @ url ms)]\<rparr>,
              w\<lparr>requests := requests w @ [(url ms, msg)]\<rparr>)"
      by (simp add: msSmtpdNewClient_run [OF cfg m reach]
          msSmtpdNewClient_body_called [OF assms(1) assms(3) assms(2)] dec rp
          handleSMTPResponse_silent [OF blank] call_world log_def)
  next
    assume cfg: "GetMicroservicesUri env ''smtpdrcptto'' = pre @ uri # rest"
      and m: "Marshal env (SmtpdRcptToQuery (uuid s_in) rcptTo) = Inr msg"
      and reach: "for_range (msSmtpdRcptTo_body env msg) pre (s_in, w_in) = Inr (s, w)"
      and dec: "sync_outcome env (UnmarshalRcptTo env) ms msg w = Inr rr"
      and rp: "GetSmtpResponse rr = Some p" "\<not> GetDropConnection rr"
    show "msSmtpdRcptTo env s_in rcptTo w_in =
           msSmtpdRcptTo_loop env msg rest
             (s\<lparr>logged := logged s @ [LogInfo (''calling '' @ url ms)],
                relayGranted := GetRelayGranted rr\<rparr>,
              w\<lparr>requests := requests w @ [(url ms, msg)]\<rparr>)"
      by (simp add: msSmtpdRcptTo_run [OF cfg m reach]
          msSmtpdRcptTo_body_called [OF assms(1) assms(3) assms(2)] dec rp
          handleSMTPResponse_silent [OF blank] call_world log_def)
  next
    assume cfg: "GetMicroservicesUri env ''smtpddata'' = pre @ uri # rest"
      and tf: "TempFile env (GetTempDir env) = Inr name"
      and wr: "Write env name rawMail = None"
      and m: "Marshal env (SmtpdDataQuery (uuid s_in) (smtpdData_link env name)) = Inr msg"
      and reach: "for_range (smtpdData_body env msg) pre
             ([], s_in, w_in\<lparr>tempfiles := tempfiles w_in @ [name]\<rparr>) = Inr (hdrs, s, w)"
      and dec: "sync_outcome env (UnmarshalData env) ms msg w = Inr rd"
      and rp: "GetSmtpResponse rd = Some p" "\<not> GetDropConnection rd"
    show "smtpdData env s_in rawMail w_in =
           deferred_Remove name
             (smtpdData_loop env msg rest
                (hdrs @ GetExtraHeaders rd,
                 s\<lparr>logged := logged s @ [LogInfo (''calling '' @ url ms)]\<rparr>,
                 w\<lparr>requests := requests w @ [(url ms, msg)]\<rparr>))"
      by (simp add: smtpdData_run [OF cfg tf wr m reach]
          smtpdData_body_called [OF assms(1) assms(3)] dec rp
          handleSMTPResponse_silent [OF blank] call_world log_def)
  qed
qed

theorem blank_reply_discarded_witness:
  "handleSMTPResponse (Some \<lparr>GetCode = 0, GetMsg = []\<rparr>) session0 = (False, session0)
   \<and> msSmtpdNewClient blank_env session0 world0 =
     (True, session0\<lparr>logged := [LogInfo ''calling a://b'', LogInfo ''calling a://c''],
                     exiting := True\<rparr>,
      world0\<lparr>requests := [(''a://b'', ''q''), (''a://c'', ''q'')]\<rparr>)
   \<and> msSmtpdRcptTo blank_env session0 ''x@y'' world0 =
     (True, session0\<lparr>relayGranted := True,
                     logged := [LogInfo ''calling a://b'', LogInfo ''calling a://c''],
                     exiting := True\<rparr>,
      world0\<lparr>requests := [(''a://b'', ''q''), (''a://c'', ''q'')]\<rparr>)
   \<and> smtpdData blank_env session0 ''mail'' world0 =
     (True, [''X-Checked: yes'', ''X-Checked: yes''],
      session0\<lparr>logged := [LogInfo ''calling a://b'', LogInfo ''calling a://c''],
               exiting := True\<rparr>,
      world0\<lparr>requests := [(''a://b'', ''q''), (''a://c'', ''q'')]\<rparr>)"
proof -
  let ?ms = "\<lparr>url = ''a://b'', skipAuthentifiedUser = False, fireAndForget = False,
              timeout = 30, onFailure = CONTINUE\<rparr>"
  let ?p = "\<lparr>GetCode = 0, GetMsg = []\<rparr>"
  let ?wd = "world0\<lparr>tempfiles := [''/tmp/421337'']\<rparr>"
  have ms: "newMicroservice (Parse blank_env) ''a://b'' = Inr ?ms"
    by (simp add: blank_env_def run_eval)
  have sync: "\<not> fireAndForget ?ms" by simp
  have ns: "\<not> (user session0 \<noteq> None \<and> skipAuthentifiedUser ?ms)" by simp
  have bl: "GetCode ?p = 0 \<or> GetMsg ?p = []" by simp
  note inst = blank_reply_discarded [OF ms sync ns bl, where pre = "[]" and rest = "[''a://c'']"
      and msg = "''q''" and s_in = session0 and name = "''/tmp/421337''"
      and rawMail = "''mail''" and rcptTo = "''x@y''" and hdrs = "[]"
      and r = "\<lparr>GetSmtpResponse = Some ?p, GetDropConnection = False\<rparr>"
      and rr = "\<lparr>GetSmtpResponse = Some ?p, GetDropConnection = False, GetRelayGranted = True\<rparr>"
      and rd = "\<lparr>GetSmtpResponse = Some ?p, GetDropConnection = False,
                 GetExtraHeaders = [''X-Checked: yes'']\<rparr>"]
  have d: "sync_outcome blank_env (UnmarshalNewClient blank_env) ?ms ''q'' world0 =
             Inr \<lparr>GetSmtpResponse = Some ?p, GetDropConnection = False\<rparr>"
    "sync_outcome blank_env (UnmarshalRcptTo blank_env) ?ms ''q'' world0 =
             Inr \<lparr>GetSmtpResponse = Some ?p, GetDropConnection = False, GetRelayGranted = True\<rparr>"
    "sync_outcome blank_env (UnmarshalData blank_env) ?ms ''q'' ?wd =
             Inr \<lparr>GetSmtpResponse = Some ?p, GetDropConnection = False,
                  GetExtraHeaders = [''X-Checked: yes'']\<rparr>"
    by (simp_all add: sync_outcome_def blank_env_def run_eval)
  have r0: "handleSMTPResponse (Some ?p) session0 = (False, session0)"
    using inst [THEN conjunct1] by simp
  have r1: "msSmtpdNewClient blank_env session0 world0 =
      msSmtpdNewClient_loop blank_env ''q'' [''a://c'']
        (session0\<lparr>logged := [LogInfo ''calling a://b'']\<rparr>,
         world0\<lparr>requests := [(''a://b'', ''q'')]\<rparr>)"
    using inst [where w_in = world0 and w = world0, THEN conjunct2, THEN conjunct1] d
    by (simp add: blank_env_def example_env_def session0_def world0_def)
  have r2: "msSmtpdRcptTo blank_env session0 ''x@y'' world0 =
      msSmtpdRcptTo_loop blank_env ''q'' [''a://c'']
        (session0\<lparr>logged := [LogInfo ''calling a://b''], relayGranted := True\<rparr>,
         world0\<lparr>requests := [(''a://b'', ''q'')]\<rparr>)"
    using inst [where w_in = world0 and w = world0, THEN conjunct2, THEN conjunct2, THEN conjunct1] d
    by (simp add: blank_env_def example_env_def session0_def world0_def)
  have r3: "smtpdData blank_env session0 ''mail'' world0 =
      deferred_Remove ''/tmp/421337''
        (smtpdData_loop blank_env ''q'' [''a://c'']
          ([''X-Checked: yes''], session0\<lparr>logged := [LogInfo ''calling a://b'']\<rparr>,
           world0\<lparr>requests := [(''a://b'', ''q'')], tempfiles := [''/tmp/421337'']\<rparr>))"
    using inst [where w_in = world0 and w = ?wd, THEN conjunct2, THEN conjunct2, THEN conjunct2] d
    by (simp add: blank_env_def example_env_def session0_def world0_def)
  show ?thesis
    unfolding r1 r2 r3
    by (simp add: r0 blank_env_def msSmtpdNewClient_loop_def msSmtpdNewClient_body_def
        msSmtpdRcptTo_loop_def msSmtpdRcptTo_body_def smtpdData_loop_def smtpdData_body_def
        deferred_Remove_def Remove_def run_eval)
qed

section \<open>Folding the hook's own data\<close>

text \<open>
  C7, as the code has it. The relay flag (RcptTo) and the extra headers (Data) of a
  decoded response are folded in before the reply and the drop flag are looked at, so
  for a halting and for a non-halting outcome alike: when the outcome halts, the run
  returns \<open>stop = true\<close> with the relay flag of the response in the session, or with
  the headers of the response appended to those collected so far; when it does not, the
  run goes on from a state that holds them.
\<close>

theorem extension_data_always_folded:
  assumes "newMicroservice (Parse env) uri = Inr ms"
    and "\<not> fireAndForget ms"
    and "\<not> (user s \<noteq> None \<and> skipAuthentifiedUser ms)"
  shows
   "(GetMicroservicesUri env ''smtpdrcptto'' = pre @ uri # rest
       \<and> Marshal env (SmtpdRcptToQuery (uuid s_in) rcptTo) = Inr msg
       \<and> for_range (msSmtpdRcptTo_body env msg) pre (s_in, w_in) = Inr (s, w)
       \<and> sync_outcome env (UnmarshalRcptTo env) ms msg w = Inr rr
     \<longrightarrow> (if halting rr
          then fst (msSmtpdRcptTo env s_in rcptTo w_in) = True
             \<and> relayGranted (fst (snd (msSmtpdRcptTo env s_in rcptTo w_in))) = GetRelayGranted rr
          else msSmtpdRcptTo env s_in rcptTo w_in =
                 msSmtpdRcptTo_loop env msg rest
                   (s\<lparr>logged := logged s @ [LogInfo (''calling '' @ url ms)],
                      relayGranted := GetRelayGranted rr\<rparr>,
                    w\<lparr>requests := requests w @ [(url ms, msg)]\<rparr>)))
  \<and> (GetMicroservicesUri env ''smtpddata'' = pre @ uri # rest
       \<and> TempFile env (GetTempDir env) = Inr name
       \<and> Write env name rawMail = None
       \<and> Marshal env (SmtpdDataQuery (uuid s_in) (smtpdData_link env name)) = Inr msg
       \<and> for_range (smtpdData_body env msg) pre
             ([], s_in, w_in\<lparr>tempfiles := tempfiles w_in @ [name]\<rparr>) = Inr (hdrs, s, w)
       \<and> sync_outcome env (UnmarshalData env) ms msg w = Inr rd
     \<longrightarrow> (if halting rd
          then fst (smtpdData env s_in rawMail w_in) = True
             \<and> fst (snd (smtpdData env s_in rawMail w_in)) = hdrs @ GetExtraHeaders rd
          else smtpdData env s_in rawMail w_in =
                 deferred_Remove name
                   (smtpdData_loop env msg rest
                      (hdrs @ GetExtraHeaders rd,
                       s\<lparr>logged := logged s @ [LogInfo (''calling '' @ url ms)]\<rparr>,
                       w\<lparr>requests := requests w @ [(url ms, msg)]\<rparr>))))"
proof (intro conjI impI; elim conjE)
  assume cfg: "GetMicroservicesUri env ''smtpdrcptto'' = pre @ uri # rest"
    and m: "Marshal env (SmtpdRcptToQuery (uuid s_in) rcptTo) = Inr msg"
    and reach: "for_range (msSmtpdRcptTo_body env msg) pre (s_in, w_in) = Inr (s, w)"
    and dec: "sync_outcome env (UnmarshalRcptTo env) ms msg w = Inr rr"
  show "if halting rr
          then fst (msSmtpdRcptTo env s_in rcptTo w_in) = True
             \<and> relayGranted (fst (snd (msSmtpdRcptTo env s_in rcptTo w_in))) = GetRelayGranted rr
          else msSmtpdRcptTo env s_in rcptTo w_in =
                 msSmtpdRcptTo_loop env msg rest
                   (s\<lparr>logged := logged s @ [LogInfo (''calling '' @ url ms)],
                      relayGranted := GetRelayGranted rr\<rparr>,
                    w\<lparr>requests := requests w @ [(url ms, msg)]\<rparr>)"
  proof (cases "halting rr")
    case True
    from msSmtpdRcptTo_body_halting [OF assms(1) assms(3) assms(2) dec True]
    obtain s' w' where "msSmtpdRcptTo_body env msg uri (s, w) = Inl (True, s', w')"
      and "relayGranted s' = GetRelayGranted rr" by blast
    with True show ?thesis
      by (simp add: msSmtpdRcptTo_run [OF cfg m reach])
  next
    case False
    then have "no_reply_text (GetSmtpResponse rr)" "\<not> GetDropConnection rr"
      by (simp_all add: halting_def)
    with False show ?thesis
      by (simp add: msSmtpdRcptTo_run [OF cfg m reach]
          msSmtpdRcptTo_body_called [OF assms(1) assms(3) assms(2)] dec
          handleSMTPResponse_silent call_world log_def)
  qed
next
  assume cfg: "GetMicroservicesUri env ''smtpddata'' = pre @ uri # rest"
    and tf: "TempFile env (GetTempDir env) = Inr name"
    and wr: "Write env name rawMail = None"
    and m: "Marshal env (SmtpdDataQuery (uuid s_in) (smtpdData_link env name)) = Inr msg"
    and reach: "for_range (smtpdData_body env msg) pre
             ([], s_in, w_in\<lparr>tempfiles := tempfiles w_in @ [name]\<rparr>) = Inr (hdrs, s, w)"
    and dec: "sync_outcome env (UnmarshalData env) ms msg w = Inr rd"
  show "if halting rd
          then fst (smtpdData env s_in rawMail w_in) = True
             \<and> fst (snd (smtpdData env s_in rawMail w_in)) = hdrs @ GetExtraHeaders rd
          else smtpdData env s_in rawMail w_in =
                 deferred_Remove name
                   (smtpdData_loop env msg rest
                      (hdrs @ GetExtraHeaders rd,
                       s\<lparr>logged := logged s @ [LogInfo (''calling '' @ url ms)]\<rparr>,
                       w\<lparr>requests := requests w @ [(url ms, msg)]\<rparr>))"
  proof (cases "halting rd")
    case True
    from smtpdData_body_halting [OF assms(1) assms(3) dec True]
    obtain s' w' where "smtpdData_body env msg uri (hdrs, s, w) =
        Inl (True, hdrs @ GetExtraHeaders rd, s', w')" by blast
    with True show ?thesis
      by (simp add: smtpdData_run [OF cfg tf wr m reach] deferred_Remove_def)
  next
    case False
    then have "no_reply_text (GetSmtpResponse rd)" "\<not> GetDropConnection rd"
      by (simp_all add: halting_def)
    with False show ?thesis
      by (simp add: smtpdData_run [OF cfg tf wr m reach]
          smtpdData_body_called [OF assms(1) assms(3)] dec
          handleSMTPResponse_silent call_world log_def)
  qed
qed

theorem extension_data_always_folded_witness:
  "fst (msSmtpdRcptTo reject_env session0 ''x@y'' world0) = True
   \<and> relayGranted (fst (snd (msSmtpdRcptTo reject_env session0 ''x@y'' world0))) = True
   \<and> fst (smtpdData reject_env session0 ''mail'' world0) = True
   \<and> fst (snd (smtpdData reject_env session0 ''mail'' world0)) = [''X-Checked: yes'']"
proof -
  let ?ms = "\<lparr>url = ''a://b'', skipAuthentifiedUser = False, fireAndForget = False,
              timeout = 30, onFailure = CONTINUE\<rparr>"
  let ?p = "\<lparr>GetCode = 550, GetMsg = ''no''\<rparr>"
  let ?wd = "world0\<lparr>tempfiles := [''/tmp/421337'']\<rparr>"
  let ?rr = "\<lparr>GetSmtpResponse = Some ?p, GetDropConnection = False, GetRelayGranted = True\<rparr>"
  let ?rd = "\<lparr>GetSmtpResponse = Some ?p, GetDropConnection = False,
                 GetExtraHeaders = [''X-Checked: yes'']\<rparr>"
  have ms: "newMicroservice (Parse reject_env) ''a://b'' = Inr ?ms"
    by (simp add: reject_env_def run_eval)
  have sync: "\<not> fireAndForget ?ms" by simp
  have ns: "\<not> (user session0 \<noteq> None \<and> skipAuthentifiedUser ?ms)" by simp
  note inst = extension_data_always_folded [OF ms sync ns, where pre = "[]"
      and rest = "[''a://c'']" and msg = "''q''" and s_in = session0
      and name = "''/tmp/421337''" and rawMail = "''mail''" and rcptTo = "''x@y''"
      and hdrs = "[]" and rr = ?rr and rd = ?rd]
  have d: "sync_outcome reject_env (UnmarshalRcptTo reject_env) ?ms ''q'' world0 = Inr ?rr"
    "sync_outcome reject_env (UnmarshalData reject_env) ?ms ''q'' ?wd = Inr ?rd"
    by (simp_all add: sync_outcome_def reject_env_def run_eval)
  have h: "halting ?rr" "halting ?rd"
    by (simp_all add: halting_def no_reply_text_def)
  have r1: "fst (msSmtpdRcptTo reject_env session0 ''x@y'' world0) = True
   \<and> relayGranted (fst (snd (msSmtpdRcptTo reject_env session0 ''x@y'' world0))) = True"
    using inst [where w_in = world0 and w = world0, THEN conjunct1] d h
    by (simp add: reject_env_def example_env_def session0_def world0_def)
  have r2: "fst (smtpdData reject_env session0 ''mail'' world0) = True
   \<and> fst (snd (smtpdData reject_env session0 ''mail'' world0)) = [''X-Checked: yes'']"
    using inst [where w_in = world0 and w = ?wd, THEN conjunct2] d h
    by (simp add: reject_env_def example_env_def session0_def world0_def)
  from r1 r2 show ?thesis by simp
qed

text \<open>
  C7 as stated fails: a response that halts the run with the reply \<open>550 no\<close> has its
  header returned by the Data hook and its relay flag stored by the RcptTo hook.
\<close>

theorem halting_outcome_is_folded:
  "UnmarshalData reject_env ''reject'' =
     Inr \<lparr>GetSmtpResponse = Some \<lparr>GetCode = 550, GetMsg = ''no''\<rparr>,
          GetDropConnection = False, GetExtraHeaders = [''X-Checked: yes'']\<rparr>
   \<and> smtpdData reject_env session0 ''mail'' world0 =
     (True, [''X-Checked: yes''],
      session0\<lparr>sent := [''550 no''],
               logged := [LogInfo ''calling a://b'',
                          LogInfo ''smtp response from microservice sent to client: 550 no'']\<rparr>,
      world0\<lparr>requests := [(''a://b'', ''q'')]\<rparr>)
   \<and> msSmtpdRcptTo reject_env session0 ''x@y'' world0 =
     (True,
      session0\<lparr>relayGranted := True, sent := [''550 no''],
               logged := [LogInfo ''calling a://b'',
                          LogInfo ''smtp response from microservice sent to client: 550 no'']\<rparr>,
      world0\<lparr>requests := [(''a://b'', ''q'')]\<rparr>)"
  by (simp add: reject_env_def smtpdData_def smtpdData_deferred_def smtpdData_loop_def
      smtpdData_body_def msSmtpdRcptTo_def msSmtpdRcptTo_loop_def msSmtpdRcptTo_body_def
      deferred_Remove_def Remove_def run_eval decimal.simps)

section \<open>The status of a response\<close>

text \<open>
  C3, as the code has it. For a response whose body can be read, \<open>call\<close> gives an error
  made of the status text, \<open> - \<close> and the raw body when the status code is above 399,
  whatever the body holds, and the raw body for every other status code.
\<close>

theorem call_status:
  assumes "Do env (length (requests w)) ms data = Inr r" and "Body r = Inr rawBody"
  shows "call env ms data w =
     (if StatusCode r > 399 then Inl (Status r @ '' - '' @ rawBody) else Inr rawBody,
      w\<lparr>requests := requests w @ [(url ms, data)]\<rparr>)"
  using assms by (simp add: call_def doRequest_def)

theorem call_status_witness:
  "call (status_env 404 ''404 Not Found'' ''nope'') ms0 ''q'' world0 =
     (Inl ''404 Not Found - nope'', world0\<lparr>requests := [(''a://b'', ''q'')]\<rparr>)
   \<and> call (status_env 200 ''200 OK'' ''fine'') ms0 ''q'' world0 =
     (Inr ''fine'', world0\<lparr>requests := [(''a://b'', ''q'')]\<rparr>)"
proof -
  have a: "Do (status_env 404 ''404 Not Found'' ''nope'') (length (requests world0)) ms0 ''q'' =
      Inr \<lparr>StatusCode = 404, Status = ''404 Not Found'', Body = Inr ''nope''\<rparr>"
    by (simp add: status_env_def ms0_def example_env_def example_net_def answer_def)
  have b: "Do (status_env 200 ''200 OK'' ''fine'') (length (requests world0)) ms0 ''q'' =
      Inr \<lparr>StatusCode = 200, Status = ''200 OK'', Body = Inr ''fine''\<rparr>"
    by (simp add: status_env_def ms0_def example_env_def example_net_def answer_def)
  show ?thesis
    using call_status [OF a, of "''nope''"] call_status [OF b, of "''fine''"]
    by (simp add: world0_def ms0_def)
qed

text \<open>
  C3 as stated fails: the status 300 is not a 2xx status, and \<open>call\<close> returns the body.
\<close>

theorem redirect_status_is_success:
  "Do (status_env 300 ''300 Multiple Choices'' ''pick one'') (length (requests world0)) ms0 ''q'' =
      Inr \<lparr>StatusCode = 300, Status = ''300 Multiple Choices'', Body = Inr ''pick one''\<rparr>
   \<and> call (status_env 300 ''300 Multiple Choices'' ''pick one'') ms0 ''q'' world0 =
     (Inr ''pick one'', world0\<lparr>requests := [(''a://b'', ''q'')]\<rparr>)"
  by (simp add: call_def doRequest_def status_env_def ms0_def example_env_def example_net_def
      answer_def world0_def)

section \<open>Defects of the code\<close>

text \<open>
  C2. An endpoint reference that does not parse should be logged and skipped, and the run
  should go on without crashing, in GetRoutes as in the session hooks. The session hooks
  do so (lemmas \<open>..._body_config_error\<close>). In \<open>msGetRoutes\<close> the failed parse leaves
  \<open>ms\<close> nil and the error branch calls \<open>ms.stopOnError()\<close>: the run panics.
\<close>

theorem msGetRoutes_config_error_panics:
  "newMicroservice (Parse badconfig_env) ''a://b?timeout=1x'' =
     Inl (NumError ''ParseUint'' ''1x'' ''invalid syntax'')
   \<and> fst (msGetRoutes badconfig_env delivery0 world0) = Inl NilPointerDereference"
  by (simp add: msGetRoutes_def stopOnError_ptr_def badconfig_env_def delivery0_def
      newMicroservice_def parser_eval example_env_def world0_def)

text \<open>
  C4. A fire-and-forget endpoint should be handed to a goroutine and never change the
  result of the run, in NewClient, RcptTo and Data. \<open>smtpdData\<close> does not read
  \<open>fireAndForget\<close>: an endpoint configured with \<open>fireandforget=true\<close> is called
  synchronously and its failure halts the run with a 550 reply, where \<open>msSmtpdRcptTo\<close>
  hands the same endpoint to a goroutine and goes on to the next one.
\<close>

theorem smtpdData_calls_fire_and_forget_synchronously:
  "newMicroservice (Parse forget_env) ''a://b?fireandforget=true&onfailure=permfail'' =
     Inr \<lparr>url = ''a://b'', skipAuthentifiedUser = False, fireAndForget = True,
          timeout = 30, onFailure = PERMFAIL\<rparr>
   \<and> smtpdData forget_env session0 ''mail'' world0 =
     (True, [],
      session0\<lparr>sent := [''550 sorry something wrong happened''],
               logged := [LogInfo ''calling a://b'',
                          LogError ''microservice a://b failed. connection refused'']\<rparr>,
      world0\<lparr>requests := [(''a://b'', ''q'')]\<rparr>)
   \<and> msSmtpdRcptTo forget_env session0 ''x@y'' world0 =
     (False,
      session0\<lparr>relayGranted := True,
               logged := [LogInfo ''calling a://b'', LogInfo ''calling a://c'']\<rparr>,
      world0\<lparr>requests := [(''a://c'', ''q'')], detached := [(''a://b'', ''q'')]\<rparr>)"
  by (simp add: forget_env_def smtpdData_def smtpdData_deferred_def smtpdData_loop_def
      smtpdData_body_def msSmtpdRcptTo_def msSmtpdRcptTo_loop_def msSmtpdRcptTo_body_def
      deferred_Remove_def Remove_def run_eval)

text \<open>
  C5. The temporary file of a Data run should be removed on every way out of the run.
  The removal is deferred only after the body has been written: when the write fails,
  the run returns and the file it created stays. After a successful write the file is
  removed on every way out (lemma \<open>smtpdData_removes_after_write\<close> below).
\<close>

theorem smtpdData_write_failure_leaves_file:
  "smtpdData diskfull_env session0 ''mail'' world0 =
     (False, [],
      session0\<lparr>logged :=
        [LogError ''ms - unable to save rawmail in tempfile. no space left on device'']\<rparr>,
      world0\<lparr>tempfiles := [''/tmp/421337'']\<rparr>)"
  by (simp add: diskfull_env_def smtpdData_def run_eval)

lemma smtpdData_removes_after_write:
  assumes "GetMicroservicesUri env ''smtpddata'' \<noteq> []"
    and "TempFile env (GetTempDir env) = Inr name" and "Write env name rawMail = None"
  shows "name \<notin> set (tempfiles (snd (snd (snd (smtpdData env s rawMail w)))))"
  using assms
  by (simp add: smtpdData_def deferred_Remove_def Remove_def split: prod.split)

end
